theory Spec2Isabelle
  imports Complex_Main
begin

section \<open>Show, Attend and Tell: the caption generator of core/model.py\<close>

text \<open>
  The class \<^verbatim>\<open>CaptionGenerator\<close> builds two computation graphs over a tensor engine:
  \<^verbatim>\<open>build_model\<close> (teacher-forced training loss) and \<^verbatim>\<open>build_sampler\<close> (greedy
  decoding). A graph and its evaluation on fed values are modelled together, as one
  function from the fed values to the value of the graph's root.

  Tensors are nested lists and their entries are real numbers: the arithmetic is exact,
  and neither the rounding of the engine's 32-bit floats nor their infinities and
  not-a-number values are modelled, but for the quotient by the batch size that ends
  \<^verbatim>\<open>build_model\<close>. Shapes are those of the lists; where the source relies on shapes
  that fit (the rows of a batch, the widths of the weights), so does the model.
\<close>

type_synonym vec = "real list"
type_synonym mat = "real list list"
type_synonym grid = "real list list list"

text \<open>
  Outcomes other than a value. The first five are Python exceptions raised by the class
  itself; \<open>EngineError\<close> is an error raised by the tensor engine (a value it cannot turn
  into a tensor, a shape it rejects); \<open>NotANumber\<close> is the quotient by an empty batch,
  which has no real value.
\<close>

datatype error = ValueError | KeyError | TypeError | IndexError | NameError
  | EngineError | NotANumber

subsection \<open>Engine operations used by the drivers\<close>

definition vec_mat :: "vec \<Rightarrow> mat \<Rightarrow> vec" where
  \<comment> \<open>a row vector (K) times a matrix (K, J)\<close>
  "vec_mat x W = map (\<lambda>c. sum_list (map2 (*) x c)) (transpose W)"

definition matmul :: "mat \<Rightarrow> mat \<Rightarrow> mat" where
  \<comment> \<open>\<^verbatim>\<open>tf.matmul(X, W)\<close>, X of shape (N, K)\<close>
  "matmul X W = map (\<lambda>x. vec_mat x W) X"

definition mat_add :: "mat \<Rightarrow> mat \<Rightarrow> mat" where
  \<comment> \<open>\<^verbatim>\<open>A + B\<close> on two tensors of one shape\<close>
  "mat_add A B = map2 (map2 (+)) A B"

definition broadcast_mul :: "mat \<Rightarrow> mat \<Rightarrow> mat" where
  \<comment> \<open>\<^verbatim>\<open>beta * context\<close>: a row of \<open>beta\<close> with one entry scales the whole row of
      \<open>context\<close> (shape (N, 1) against (N, D)); rows of equal length multiply entry by entry\<close>
  "broadcast_mul beta X =
     map2 (\<lambda>b x. case b of [s] \<Rightarrow> map ((*) s) x | _ \<Rightarrow> map2 (*) b x) beta X"

definition reduce_mean_1 :: "grid \<Rightarrow> mat" where
  \<comment> \<open>\<^verbatim>\<open>tf.reduce_mean(features, 1)\<close>: the mean over the L axis of (N, L, D)\<close>
  "reduce_mean_1 F = map (\<lambda>ex. map (\<lambda>c. sum_list c / real (length ex)) (transpose ex)) F"

definition tf_tanh :: "mat \<Rightarrow> mat" where
  "tf_tanh X = map (map tanh) X"

definition tf_dropout :: "(nat \<Rightarrow> nat \<Rightarrow> bool) \<Rightarrow> mat \<Rightarrow> real \<Rightarrow> mat" where
  \<comment> \<open>\<^verbatim>\<open>tf.nn.dropout(X, keep_prob)\<close>: each entry is kept and scaled by
      \<^verbatim>\<open>1 / keep_prob\<close>, or set to 0. Which entries are kept is drawn afresh at every
      evaluation of the graph; \<open>keep n j\<close> is the draw for entry (n, j).\<close>
  "tf_dropout keep X keep_prob =
     map (\<lambda>(n, row). map (\<lambda>(j, v). if keep n j then v / keep_prob else 0) (enumerate 0 row))
       (enumerate 0 X)"

fun argmax_from :: "nat \<Rightarrow> real \<Rightarrow> nat \<Rightarrow> real list \<Rightarrow> nat" where
  "argmax_from best bv i [] = best"
| "argmax_from best bv i (v # vs) =
     (if bv < v then argmax_from i v (Suc i) vs else argmax_from best bv (Suc i) vs)"

definition argmax_row :: "real list \<Rightarrow> nat" where
  \<comment> \<open>the index of a largest entry: the lowest one on ties (the engine does not say
      which), and 0 on an empty row\<close>
  "argmax_row r = (case r of [] \<Rightarrow> 0 | v # vs \<Rightarrow> argmax_from 0 v 1 vs)"

definition tf_argmax_1 :: "mat \<Rightarrow> nat list" where
  \<comment> \<open>\<^verbatim>\<open>tf.argmax(logits_out, 1)\<close>\<close>
  "tf_argmax_1 X = map argmax_row X"

definition col :: "nat \<Rightarrow> 'a list list \<Rightarrow> 'a list" where
  \<comment> \<open>\<^verbatim>\<open>a[:, t]\<close>; every row is longer than \<open>t\<close> where the drivers use it\<close>
  "col t rows = map (\<lambda>r. r ! t) rows"

definition pack_transpose :: "'a list list \<Rightarrow> error + 'a list list" where
  \<comment> \<open>\<^verbatim>\<open>tf.transpose(tf.pack(xs), (1, 0, ...))\<close> on a Python list of per-step tensors:
      (steps, N, ...) becomes (N, steps, ...). The pack of an empty list is a tensor of
      shape (0), which has no second axis to swap with: the engine rejects it.\<close>
  "pack_transpose xs = (case xs of [] \<Rightarrow> Inl EngineError | _ \<Rightarrow> Inr (transpose xs))"

subsection \<open>The helpers of the layers module\<close>

text \<open>
  \<^verbatim>\<open>model.py\<close> imports its layers (\<^verbatim>\<open>from layers import ...\<close>); that module is not
  part of the sources at hand. The drivers take the helpers as a parameter, one field per
  imported name, with the arguments in the order of the calls.

  \<^item> \<open>init_lstm\<close> takes the dropout flag as an option: \<open>None\<close> is the call of
    \<^verbatim>\<open>build_sampler\<close>, which leaves the argument out. Its first argument gives the draws
    of the dropout nodes the helper may create, numbered from 0.
  \<^item> \<open>word_embedding_forward\<close> is the lookup of a vector (N) of word indices.
    \<^verbatim>\<open>build_model\<close> calls it once on the (N, T) array \<^verbatim>\<open>captions_in\<close> and slices
    the result per step (\<^verbatim>\<open>x[:,t,:]\<close>); a lookup treats every index by itself, so that
    slice is the lookup of column \<open>t\<close>.
\<close>

record layers =
  init_lstm :: "(nat \<Rightarrow> nat \<Rightarrow> nat \<Rightarrow> bool) \<Rightarrow> mat \<Rightarrow> mat \<Rightarrow> vec \<Rightarrow> mat \<Rightarrow> vec \<Rightarrow> bool option \<Rightarrow> mat"
  word_embedding_forward :: "nat list \<Rightarrow> mat \<Rightarrow> mat"
  project_feature :: "grid \<Rightarrow> mat \<Rightarrow> grid"
  attention_forward :: "grid \<Rightarrow> grid \<Rightarrow> mat \<Rightarrow> mat \<Rightarrow> vec \<Rightarrow> mat \<Rightarrow> mat \<times> mat"
  rnn_step_forward :: "mat \<Rightarrow> mat \<Rightarrow> mat \<Rightarrow> mat \<Rightarrow> mat \<Rightarrow> mat \<Rightarrow> vec \<Rightarrow> mat"
  lstm_step_forward :: "mat \<Rightarrow> mat \<Rightarrow> mat \<Rightarrow> mat \<Rightarrow> mat \<Rightarrow> mat \<Rightarrow> mat \<Rightarrow> vec \<Rightarrow> mat \<times> mat"
  affine_forward :: "mat \<Rightarrow> mat \<Rightarrow> vec \<Rightarrow> mat"
  affine_sigmoid_forward :: "mat \<Rightarrow> mat \<Rightarrow> vec \<Rightarrow> mat"
  softmax_loss :: "mat \<Rightarrow> nat list \<Rightarrow> bool list \<Rightarrow> real"

subsection \<open>The generator object\<close>

text \<open>
  The weights are created in \<^verbatim>\<open>__init__\<close> by random initialisers and changed by the
  optimizer between evaluations; the model takes their current values as given.
  \<open>b_cell\<close> is \<^verbatim>\<open>self.b\<close>. \<open>W_ctx2out\<close>, \<open>W_sel\<close> and \<open>b_sel\<close> are created only
  when \<open>ctx2out\<close> or \<open>selector\<close> is set and read only under the same flag.
\<close>

record weights =
  W_embed :: mat
  W1_init_h :: mat
  b1_init_h :: vec
  W2_init_h :: mat
  b2_init_h :: vec
  W1_init_c :: mat
  b1_init_c :: vec
  W2_init_c :: mat
  b2_init_c :: vec
  W_proj_x :: mat
  W_proj_h :: mat
  b_proj :: vec
  W_att :: mat
  Wx :: mat
  Wh :: mat
  Wz :: mat
  b_cell :: vec
  W_ctx2out :: mat
  W_sel :: mat
  b_sel :: vec
  W1_decode :: mat
  b1_decode :: vec
  W2_decode :: mat
  b2_decode :: vec

text \<open>
  The attributes of \<^verbatim>\<open>self\<close>: \<open>dim_V\<close> ... \<open>dim_H\<close> are \<^verbatim>\<open>self.V\<close> ... \<^verbatim>\<open>self.H\<close>,
  \<open>n_T\<close> is \<^verbatim>\<open>self.T\<close>, \<open>null_idx\<close> and \<open>start_idx\<close> are \<^verbatim>\<open>self._null\<close> and
  \<^verbatim>\<open>self._start\<close> (\<open>None\<close> is Python's \<^verbatim>\<open>None\<close>). A dictionary is the list of its
  items.
\<close>

record generator = weights +
  cell_type :: string
  word_to_idx :: "(string \<times> nat) list"
  idx_to_word :: "(nat \<times> string) list"
  prev2out :: bool
  ctx2out :: bool
  alpha_c :: real
  selector :: bool
  use_dropout :: bool
  dim_V :: nat
  dim_L :: nat
  dim_D :: nat
  dim_M :: nat
  dim_H :: nat
  n_T :: nat
  null_idx :: nat
  start_idx :: "nat option"

definition init_generator ::
  "weights \<Rightarrow> (string \<times> nat) list \<Rightarrow> nat list \<Rightarrow> nat \<Rightarrow> nat \<Rightarrow> nat option \<Rightarrow> string
     \<Rightarrow> bool \<Rightarrow> bool \<Rightarrow> real \<Rightarrow> bool \<Rightarrow> bool \<Rightarrow> error + generator" where
  \<comment> \<open>\<^verbatim>\<open>__init__(self, word_to_idx, dim_feature, dim_embed, dim_hidden, n_time_step,
      cell_type, prev2out, ctx2out, alpha_c, selector, use_dropout)\<close>; \<open>drawn\<close> are
      the values the initialisers draw. The checks are in the order of the source:
      line 32, lines 45-46 (\<^verbatim>\<open>dim_feature[0]\<close>, \<^verbatim>\<open>dim_feature[1]\<close>), line 50
      (\<^verbatim>\<open>word_to_idx['<NULL>']\<close>), line 98 (\<^verbatim>\<open>self.T + 1\<close> with \<^verbatim>\<open>n_time_step=None\<close>).
      The result holds the weights and then the attributes in the order of the record:
      cell type, the two dictionaries, the five switches, V, L, D, M, H, T, the null
      index and the start index.\<close>
  "init_generator drawn w2i dim_feature dim_embed dim_hidden n_time_step ctype
       p2o c2o ac sel udrop =
     (if ctype \<notin> {''rnn'', ''lstm''} then Inl ValueError
      else case dim_feature of
        l # d # _ \<Rightarrow>
          (case map_of w2i ''<NULL>'' of
             None \<Rightarrow> Inl KeyError
           | Some nul \<Rightarrow>
               (case n_time_step of
                  None \<Rightarrow> Inl TypeError
                | Some t \<Rightarrow>
                    Inr (weights.extend drawn
                      (generator.fields ctype w2i (map (\<lambda>(w, i). (i, w)) (rev w2i))
                         p2o c2o ac sel udrop (length w2i) l d dim_embed dim_hidden t
                         nul (map_of w2i ''<START>'')))))
      | _ \<Rightarrow> Inl IndexError)"

subsection \<open>Randomness of one evaluation\<close>

text \<open>
  Every dropout node of a graph draws its own keep-mask at every evaluation. The nodes of
  the training graph are the ones inside the two calls of \<open>init_lstm\<close> (lines 122 and
  123), the one on the hidden state (line 152) and the one on the decoder's intermediate
  (line 162) of every step \<open>t\<close>. One evaluation is given by the draws of all nodes.
\<close>

datatype dropout_site = InitH nat | InitC nat | HiddenDrop nat | DecodeDrop nat

type_synonym draws = "dropout_site \<Rightarrow> nat \<Rightarrow> nat \<Rightarrow> bool"

subsection \<open>The loops\<close>

text \<open>
  \<^verbatim>\<open>for t in range(n)\<close>: the body runs for \<open>t = 0, ..., n - 1\<close> on the state the
  previous run left; an exception ends the loop.
\<close>

fun unroll :: "(nat \<Rightarrow> 's \<Rightarrow> error + 's) \<Rightarrow> nat list \<Rightarrow> 's \<Rightarrow> error + 's" where
  "unroll step [] st = Inr st"
| "unroll step (t # ts) st =
     (case step t st of Inl e \<Rightarrow> Inl e | Inr st' \<Rightarrow> unroll step ts st')"

record loop_state =
  prev_h :: mat
  prev_c :: mat
  alpha_list :: "mat list"

record train_state = loop_state +
  loss :: real

text \<open>\<open>sampled_word\<close> is \<open>None\<close> while the Python variable is not yet bound.\<close>

record sample_state = loop_state +
  sampled_word :: "nat list option"
  sampled_word_list :: "nat list list"

subsection \<open>Parts of a step shared by the two drivers\<close>

definition select_context :: "layers \<Rightarrow> generator \<Rightarrow> mat \<Rightarrow> mat \<Rightarrow> mat" where
  \<comment> \<open>lines 138-140 and 213-215\<close>
  "select_context Ls g h context =
     (if selector g
      then let beta = affine_sigmoid_forward Ls h (W_sel g) (b_sel g)
           in broadcast_mul beta context
      else context)"

definition cell_step ::
  "layers \<Rightarrow> generator \<Rightarrow> mat \<Rightarrow> mat \<Rightarrow> mat \<Rightarrow> mat \<Rightarrow> error + mat \<times> mat" where
  \<comment> \<open>lines 143-149 and 218-224: the new hidden and cell state. With another cell type
      neither branch binds \<^verbatim>\<open>next_h\<close>, and its first use raises.\<close>
  "cell_step Ls g x h c context =
     (if cell_type g = ''rnn''
      then Inr (rnn_step_forward Ls x h context (Wx g) (Wh g) (Wz g) (b_cell g), c)
      else if cell_type g = ''lstm''
      then Inr (lstm_step_forward Ls x h c context (Wx g) (Wh g) (Wz g) (b_cell g))
      else Inl NameError)"

definition decode_hidden :: "layers \<Rightarrow> generator \<Rightarrow> mat \<Rightarrow> mat \<Rightarrow> mat \<Rightarrow> mat" where
  \<comment> \<open>lines 155-159 and 227-231: \<^verbatim>\<open>logits\<close> before the tanh\<close>
  "decode_hidden Ls g h x context =
     (let logits = affine_forward Ls h (W1_decode g) (b1_decode g);
          logits = (if prev2out g then mat_add logits x else logits);
          logits = (if ctx2out g then mat_add logits (matmul context (W_ctx2out g)) else logits)
      in logits)"

definition feed_features :: "generator \<Rightarrow> grid \<Rightarrow> bool" where
  \<comment> \<open>line 97: the placeholder of shape \<^verbatim>\<open>[None, L, D]\<close> takes no other shape\<close>
  "feed_features g features =
     list_all (\<lambda>ex. length ex = dim_L g \<and> list_all (\<lambda>r. length r = dim_D g) ex) features"

definition feed_captions :: "generator \<Rightarrow> nat list list \<Rightarrow> bool" where
  \<comment> \<open>line 98: the placeholder of shape \<^verbatim>\<open>[None, T + 1]\<close>\<close>
  "feed_captions g captions = list_all (\<lambda>r. length r = n_T g + 1) captions"

subsection \<open>build_model\<close>

definition model_cell_decode ::
  "layers \<Rightarrow> generator \<Rightarrow> draws \<Rightarrow> nat \<Rightarrow> mat \<Rightarrow> mat \<Rightarrow> mat \<Rightarrow> mat
     \<Rightarrow> error + mat \<times> mat \<times> mat" where
  \<comment> \<open>lines 142-163, from the word vectors \<open>x_t\<close> of the step and the context vector:
      the new hidden state, the new cell state and \<^verbatim>\<open>logits_out\<close>\<close>
  "model_cell_decode Ls g rnd t x_t h c context =
     (case cell_step Ls g x_t h c context of
        Inl e \<Rightarrow> Inl e
      | Inr (next_h, next_c) \<Rightarrow>
          let dropped_h = (if use_dropout g then tf_dropout (rnd (HiddenDrop t)) next_h (1/2)
                           else next_h);
              logits = decode_hidden Ls g dropped_h x_t context;
              logits_h = tf_tanh logits;
              logits_h = tf_dropout (rnd (DecodeDrop t)) logits_h (1/2);
              logits_out = affine_forward Ls logits_h (W2_decode g) (b2_decode g)
          in Inr (next_h, next_c, logits_out))"

definition model_logits ::
  "layers \<Rightarrow> generator \<Rightarrow> draws \<Rightarrow> grid \<Rightarrow> grid \<Rightarrow> nat list list \<Rightarrow> nat \<Rightarrow> train_state
     \<Rightarrow> error + mat \<times> mat \<times> mat \<times> mat" where
  \<comment> \<open>lines 134-163: new hidden state, new cell state, attention weights and
      \<^verbatim>\<open>logits_out\<close> of step \<open>t\<close>\<close>
  "model_logits Ls g rnd features features_projected cin t st =
     (case attention_forward Ls features features_projected (prev_h st)
             (W_proj_h g) (b_proj g) (W_att g) of
        (context, alpha) \<Rightarrow>
          (case model_cell_decode Ls g rnd t
                  (word_embedding_forward Ls (col t cin) (W_embed g))
                  (prev_h st) (prev_c st) (select_context Ls g (prev_h st) context) of
             Inl e \<Rightarrow> Inl e
           | Inr (next_h, next_c, logits_out) \<Rightarrow> Inr (next_h, next_c, alpha, logits_out)))"

definition model_step ::
  "layers \<Rightarrow> generator \<Rightarrow> draws \<Rightarrow> grid \<Rightarrow> grid \<Rightarrow> nat list list \<Rightarrow> nat list list
     \<Rightarrow> bool list list \<Rightarrow> nat \<Rightarrow> train_state \<Rightarrow> error + train_state" where
  \<comment> \<open>the body of the loop, lines 134-166\<close>
  "model_step Ls g rnd features features_projected cin cout cmask t st =
     (case model_logits Ls g rnd features features_projected cin t st of
        Inl e \<Rightarrow> Inl e
      | Inr (next_h, next_c, alpha, logits_out) \<Rightarrow>
          Inr \<lparr>prev_h = next_h, prev_c = next_c, alpha_list = alpha_list st @ [alpha],
               loss = loss st + softmax_loss Ls logits_out (col t cout) (col t cmask)\<rparr>)"

definition model_init :: "layers \<Rightarrow> generator \<Rightarrow> draws \<Rightarrow> grid \<Rightarrow> train_state" where
  \<comment> \<open>lines 121-123 and 131-132\<close>
  "model_init Ls g rnd features =
     (let mean_features = reduce_mean_1 features
      in \<lparr>prev_h = init_lstm Ls (\<lambda>k. rnd (InitH k)) mean_features (W1_init_h g) (b1_init_h g)
                     (W2_init_h g) (b2_init_h g) (Some (use_dropout g)),
          prev_c = init_lstm Ls (\<lambda>k. rnd (InitC k)) mean_features (W1_init_c g) (b1_init_c g)
                     (W2_init_c g) (b2_init_c g) (Some (use_dropout g)),
          alpha_list = [], loss = 0\<rparr>)"

definition captions_in :: "generator \<Rightarrow> nat list list \<Rightarrow> nat list list" where
  \<comment> \<open>line 116: \<^verbatim>\<open>captions[:, :self.T]\<close>\<close>
  "captions_in g captions = map (take (n_T g)) captions"

definition captions_out :: "nat list list \<Rightarrow> nat list list" where
  \<comment> \<open>line 117: \<^verbatim>\<open>captions[:, 1:]\<close>\<close>
  "captions_out captions = map (drop 1) captions"

definition loss_mask :: "generator \<Rightarrow> nat list list \<Rightarrow> bool list list" where
  \<comment> \<open>line 118: \<^verbatim>\<open>tf.not_equal(captions_out, self._null)\<close>\<close>
  "loss_mask g captions = map (map (\<lambda>w. w \<noteq> null_idx g)) (captions_out captions)"

definition model_run ::
  "layers \<Rightarrow> generator \<Rightarrow> draws \<Rightarrow> grid \<Rightarrow> nat list list \<Rightarrow> nat \<Rightarrow> error + train_state" where
  \<comment> \<open>the state after the first \<open>n\<close> runs of the loop body (lines 129 and 133)\<close>
  "model_run Ls g rnd features captions n =
     unroll (model_step Ls g rnd features (project_feature Ls features (W_proj_x g))
               (captions_in g captions) (captions_out captions) (loss_mask g captions))
       [0..<n] (model_init Ls g rnd features)"

definition reduce_sum_1 :: "grid \<Rightarrow> mat" where
  \<comment> \<open>\<^verbatim>\<open>tf.reduce_sum(alphas, 1)\<close>: (N, T, L) to (N, L)\<close>
  "reduce_sum_1 A = map (\<lambda>a. map sum_list (transpose a)) A"

definition reduce_sum_all :: "mat \<Rightarrow> real" where
  "reduce_sum_all X = sum_list (map sum_list X)"

definition alpha_reg :: "generator \<Rightarrow> mat list \<Rightarrow> error + real" where
  \<comment> \<open>lines 170-172\<close>
  "alpha_reg g alist =
     (case pack_transpose alist of
        Inl e \<Rightarrow> Inl e
      | Inr alphas \<Rightarrow>
          let alphas_all = reduce_sum_1 alphas
          in Inr (alpha_c g * reduce_sum_all (map (map (\<lambda>m. (16 / 196 - m)\<^sup>2)) alphas_all)))"

definition build_model ::
  "layers \<Rightarrow> generator \<Rightarrow> draws \<Rightarrow> grid \<Rightarrow> nat list list \<Rightarrow> error + real" where
  \<comment> \<open>lines 101-175, evaluated on the fed \<open>features\<close> and \<open>captions\<close> with the draws
      \<open>rnd\<close>. Errors of building the graph come before those of feeding it.\<close>
  "build_model Ls g rnd features captions =
     (let batch_size = length features
      in case model_run Ls g rnd features captions (n_T g) of
           Inl e \<Rightarrow> Inl e
         | Inr st \<Rightarrow>
             (case (if alpha_c g > 0
                    then (case alpha_reg g (alpha_list st) of
                            Inl e \<Rightarrow> Inl e
                          | Inr r \<Rightarrow> Inr (loss st + r))
                    else Inr (loss st)) of
                Inl e \<Rightarrow> Inl e
              | Inr total_loss \<Rightarrow>
                  if \<not> (feed_features g features \<and> feed_captions g captions
                         \<and> length captions = batch_size)
                  then Inl EngineError
                  else if batch_size = 0 then Inl NotANumber
                  else Inr (total_loss / real batch_size)))"

subsection \<open>build_sampler\<close>

definition sampler_input ::
  "layers \<Rightarrow> generator \<Rightarrow> nat \<Rightarrow> nat \<Rightarrow> sample_state \<Rightarrow> error + mat" where
  \<comment> \<open>lines 204-207; \<open>batch\<close> is \<^verbatim>\<open>tf.shape(features)[0]\<close>. \<^verbatim>\<open>tf.fill\<close> has no tensor
      for the value \<^verbatim>\<open>None\<close>.\<close>
  "sampler_input Ls g batch t st =
     (if t = 0
      then (case start_idx g of
              None \<Rightarrow> Inl EngineError
            | Some s \<Rightarrow> Inr (word_embedding_forward Ls (replicate batch s) (W_embed g)))
      else (case sampled_word st of
              None \<Rightarrow> Inl NameError
            | Some w \<Rightarrow> Inr (word_embedding_forward Ls w (W_embed g))))"

definition sampler_cell_decode ::
  "layers \<Rightarrow> generator \<Rightarrow> mat \<Rightarrow> mat \<Rightarrow> mat \<Rightarrow> mat \<Rightarrow> error + mat \<times> mat \<times> mat" where
  \<comment> \<open>lines 217-233, from the word vectors \<open>x\<close> and the context vector: the new hidden
      state, the new cell state and \<^verbatim>\<open>logits_out\<close>\<close>
  "sampler_cell_decode Ls g x h c context =
     (case cell_step Ls g x h c context of
        Inl e \<Rightarrow> Inl e
      | Inr (h', c') \<Rightarrow>
          let logits = decode_hidden Ls g h' x context;
              logits_h = tf_tanh logits;
              logits_out = affine_forward Ls logits_h (W2_decode g) (b2_decode g)
          in Inr (h', c', logits_out))"

definition sampler_logits ::
  "layers \<Rightarrow> generator \<Rightarrow> grid \<Rightarrow> grid \<Rightarrow> sample_state \<Rightarrow> mat
     \<Rightarrow> error + mat \<times> mat \<times> mat \<times> mat" where
  \<comment> \<open>lines 209-233, from the word vectors \<open>x\<close>: new hidden state, new cell state,
      attention weights and \<^verbatim>\<open>logits_out\<close>\<close>
  "sampler_logits Ls g features features_projected st x =
     (case attention_forward Ls features features_projected (prev_h st)
             (W_proj_h g) (b_proj g) (W_att g) of
        (context, alpha) \<Rightarrow>
          (case sampler_cell_decode Ls g x (prev_h st) (prev_c st)
                  (select_context Ls g (prev_h st) context) of
             Inl e \<Rightarrow> Inl e
           | Inr (h, c, logits_out) \<Rightarrow> Inr (h, c, alpha, logits_out)))"

definition sampler_step ::
  "layers \<Rightarrow> generator \<Rightarrow> grid \<Rightarrow> grid \<Rightarrow> nat \<Rightarrow> sample_state \<Rightarrow> error + sample_state" where
  \<comment> \<open>the body of the loop, lines 203-237\<close>
  "sampler_step Ls g features features_projected t st =
     (case sampler_input Ls g (length features) t st of
        Inl e \<Rightarrow> Inl e
      | Inr x \<Rightarrow>
          (case sampler_logits Ls g features features_projected st x of
             Inl e \<Rightarrow> Inl e
           | Inr (h, c, alpha, logits_out) \<Rightarrow>
               let word = tf_argmax_1 logits_out
               in Inr \<lparr>prev_h = h, prev_c = c, alpha_list = alpha_list st @ [alpha],
                       sampled_word = Some word,
                       sampled_word_list = sampled_word_list st @ [word]\<rparr>))"

definition sampler_init :: "layers \<Rightarrow> generator \<Rightarrow> draws \<Rightarrow> grid \<Rightarrow> sample_state" where
  \<comment> \<open>lines 193-195 and 200-201\<close>
  "sampler_init Ls g rnd features =
     (let mean_features = reduce_mean_1 features
      in \<lparr>prev_h = init_lstm Ls (\<lambda>k. rnd (InitH k)) mean_features (W1_init_h g) (b1_init_h g)
                     (W2_init_h g) (b2_init_h g) None,
          prev_c = init_lstm Ls (\<lambda>k. rnd (InitC k)) mean_features (W1_init_c g) (b1_init_c g)
                     (W2_init_c g) (b2_init_c g) None,
          alpha_list = [], sampled_word = None, sampled_word_list = []\<rparr>)"

definition sampler_run ::
  "layers \<Rightarrow> generator \<Rightarrow> draws \<Rightarrow> grid \<Rightarrow> nat \<Rightarrow> error + sample_state" where
  \<comment> \<open>the state after the first \<open>n\<close> runs of the loop body\<close>
  "sampler_run Ls g rnd features n =
     unroll (sampler_step Ls g features (project_feature Ls features (W_proj_x g)))
       [0..<n] (sampler_init Ls g rnd features)"

definition build_sampler ::
  "layers \<Rightarrow> generator \<Rightarrow> draws \<Rightarrow> grid \<Rightarrow> nat \<Rightarrow> error + grid \<times> nat list list" where
  \<comment> \<open>lines 178-242, evaluated on the fed \<open>features\<close>\<close>
  "build_sampler Ls g rnd features max_len =
     (case sampler_run Ls g rnd features max_len of
        Inl e \<Rightarrow> Inl e
      | Inr st \<Rightarrow>
          (case pack_transpose (alpha_list st) of
             Inl e \<Rightarrow> Inl e
           | Inr alphas \<Rightarrow>
               (case pack_transpose (sampled_word_list st) of
                  Inl e \<Rightarrow> Inl e
                | Inr sampled_captions \<Rightarrow>
                    if \<not> feed_features g features then Inl EngineError
                    else Inr (alphas, sampled_captions))))"

section \<open>A reference instance of the helpers\<close>

text \<open>
  The theorems below hold for every instance of the helpers; a few ask the instance for
  a property, stated as a hypothesis. The instance of this section is used to evaluate
  the drivers on concrete inputs.
\<close>

definition sp_affine_forward :: "mat \<Rightarrow> mat \<Rightarrow> vec \<Rightarrow> mat" where
  \<comment> \<open>Modelled from the spec: \<^verbatim>\<open>layers.affine_forward\<close> is missing; spec 4.6 calls it
      an "affine map": every row of \<open>X\<close> times \<open>W\<close>, plus the bias.\<close>
  "sp_affine_forward X W b = map (\<lambda>x. map2 (+) (vec_mat x W) b) X"

definition sigmoid :: "real \<Rightarrow> real" where
  "sigmoid v = 1 / (1 + exp (- v))"

definition sp_affine_sigmoid_forward :: "mat \<Rightarrow> mat \<Rightarrow> vec \<Rightarrow> mat" where
  \<comment> \<open>Modelled from the spec: \<^verbatim>\<open>layers.affine_sigmoid_forward\<close> is missing; spec 4.4:
      "affine map to a scalar followed by sigmoid".\<close>
  "sp_affine_sigmoid_forward X W b = map (map sigmoid) (sp_affine_forward X W b)"

definition sp_init_lstm ::
  "(nat \<Rightarrow> nat \<Rightarrow> nat \<Rightarrow> bool) \<Rightarrow> mat \<Rightarrow> mat \<Rightarrow> vec \<Rightarrow> mat \<Rightarrow> vec \<Rightarrow> bool option \<Rightarrow> mat" where
  \<comment> \<open>Modelled from the spec: \<^verbatim>\<open>layers.init_lstm\<close> is missing; spec 4.1: "two stacked
      affine+nonlinear (tanh) layers with optional dropout between/after". The flag
      left out means no dropout: spec 4.8 and 9 have none in the sampling driver.\<close>
  "sp_init_lstm rd X W1 b1 W2 b2 flag =
     (let dropout = (case flag of None \<Rightarrow> False | Some f \<Rightarrow> f);
          h1 = tf_tanh (sp_affine_forward X W1 b1);
          h1 = (if dropout then tf_dropout (rd 0) h1 (1/2) else h1);
          h2 = tf_tanh (sp_affine_forward h1 W2 b2);
          h2 = (if dropout then tf_dropout (rd 1) h2 (1/2) else h2)
      in h2)"

definition sp_word_embedding_forward :: "nat list \<Rightarrow> mat \<Rightarrow> mat" where
  \<comment> \<open>Modelled from the spec: \<^verbatim>\<open>layers.word_embedding_forward\<close> is missing; spec 3:
      "row i is the embedding of vocabulary index i". Indices are in [0, V) by the
      contract of the inputs (spec 6); the row for another index is left empty.\<close>
  "sp_word_embedding_forward idxs W = map (\<lambda>i. if i < length W then W ! i else []) idxs"

definition sp_project_feature :: "grid \<Rightarrow> mat \<Rightarrow> grid" where
  \<comment> \<open>Modelled from the spec: \<^verbatim>\<open>layers.project_feature\<close> is missing; spec 4.2: "a single
      linear map along the D axis (shared across L and N)".\<close>
  "sp_project_feature F W = map (\<lambda>ex. matmul ex W) F"

definition softmax :: "vec \<Rightarrow> vec" where
  "softmax v = map (\<lambda>e. exp e / sum_list (map exp v)) v"

definition sp_attention_forward ::
  "grid \<Rightarrow> grid \<Rightarrow> mat \<Rightarrow> mat \<Rightarrow> vec \<Rightarrow> mat \<Rightarrow> mat \<times> mat" where
  \<comment> \<open>Modelled from the spec: \<^verbatim>\<open>layers.attention_forward\<close> is missing; spec 4.3: project
      the hidden state into D dimensions, add it to every row of the projected grid,
      apply tanh, reduce the D axis by the learned (D, 1) matrix, softmax along L, and
      weight the rows of the grid.\<close>
  "sp_attention_forward F P h Wph bp Wa =
     (let h_proj = sp_affine_forward h Wph bp;
          alpha = map2 (\<lambda>pex hp.
                    softmax (map (\<lambda>prow. sum_list (vec_mat (map tanh (map2 (+) prow hp)) Wa)) pex))
                    P h_proj;
          context = map2 (\<lambda>ex a. map sum_list (transpose (map2 (\<lambda>w row. map ((*) w) row) a ex)))
                      F alpha
      in (context, alpha))"

definition cell_affine :: "mat \<Rightarrow> mat \<Rightarrow> mat \<Rightarrow> mat \<Rightarrow> mat \<Rightarrow> mat \<Rightarrow> vec \<Rightarrow> mat" where
  "cell_affine x h context WX WH WZ b =
     map (\<lambda>r. map2 (+) r b) (mat_add (mat_add (matmul x WX) (matmul h WH)) (matmul context WZ))"

definition sp_rnn_step_forward ::
  "mat \<Rightarrow> mat \<Rightarrow> mat \<Rightarrow> mat \<Rightarrow> mat \<Rightarrow> mat \<Rightarrow> vec \<Rightarrow> mat" where
  \<comment> \<open>Modelled from the spec: \<^verbatim>\<open>layers.rnn_step_forward\<close> is missing; spec 4.5, plain
      variant: nonlinearity of the affine combination of word vector, previous hidden
      state and context.\<close>
  "sp_rnn_step_forward x h context WX WH WZ b = tf_tanh (cell_affine x h context WX WH WZ b)"

definition lstm_row :: "vec \<Rightarrow> vec \<Rightarrow> vec \<times> vec" where
  "lstm_row a c =
     (let k = length a div 4;
          i = map sigmoid (take k a);
          f = map sigmoid (take k (drop k a));
          out = map sigmoid (take k (drop (2 * k) a));
          cand = map tanh (take k (drop (3 * k) a));
          c' = map2 (+) (map2 (*) f c) (map2 (*) i cand)
      in (map2 (*) out (map tanh c'), c'))"

definition sp_lstm_step_forward ::
  "mat \<Rightarrow> mat \<Rightarrow> mat \<Rightarrow> mat \<Rightarrow> mat \<Rightarrow> mat \<Rightarrow> mat \<Rightarrow> vec \<Rightarrow> mat \<times> mat" where
  \<comment> \<open>Modelled from the spec: \<^verbatim>\<open>layers.lstm_step_forward\<close> is missing; spec 4.5, gated
      variant: one affine combination cut into four H-wide blocks (input, forget and
      output gate, candidate), new cell = forget * cell + input * candidate, new hidden
      = output * tanh(new cell).\<close>
  "sp_lstm_step_forward x h c context WX WH WZ b =
     (let rows = map2 lstm_row (cell_affine x h context WX WH WZ b) c
      in (map fst rows, map snd rows))"

definition sp_softmax_loss :: "mat \<Rightarrow> nat list \<Rightarrow> bool list \<Rightarrow> real" where
  \<comment> \<open>Modelled from the spec: \<^verbatim>\<open>layers.softmax_loss\<close> is missing; spec 4.7: "masked
      softmax cross-entropy", "loss contribution is zero for masked/padding positions",
      "masked-summed". Targets are in [0, V) by the contract of the inputs.\<close>
  "sp_softmax_loss logits y m =
     sum_list (map2 (\<lambda>l (w, v). if v then - ln (softmax l ! w) else 0) logits (zip y m))"

definition spec_layers :: layers where
  "spec_layers =
     \<lparr>init_lstm = sp_init_lstm,
      word_embedding_forward = sp_word_embedding_forward,
      project_feature = sp_project_feature,
      attention_forward = sp_attention_forward,
      rnn_step_forward = sp_rnn_step_forward,
      lstm_step_forward = sp_lstm_step_forward,
      affine_forward = sp_affine_forward,
      affine_sigmoid_forward = sp_affine_sigmoid_forward,
      softmax_loss = sp_softmax_loss\<rparr>"

subsection \<open>Concrete generators and draws\<close>

text \<open>
  \<open>tiny_gen\<close> has one location, one step, width 1 everywhere and the vocabulary
  \<^verbatim>\<open>{'<NULL>': 0, '<START>': 1}\<close>, with every switch off; \<open>reg_gen\<close> has four
  locations, two steps and \<^verbatim>\<open>alpha_c = 1\<close>; \<open>no_start_gen\<close> is \<open>tiny_gen\<close> over a
  vocabulary without \<^verbatim>\<open>'<START>'\<close>.
\<close>

definition tiny_weights :: weights where
  "tiny_weights =
     \<lparr>W_embed = [[0], [0]],
      W1_init_h = [[0]], b1_init_h = [0], W2_init_h = [[0]], b2_init_h = [0],
      W1_init_c = [[0]], b1_init_c = [0], W2_init_c = [[0]], b2_init_c = [0],
      W_proj_x = [[0]], W_proj_h = [[0]], b_proj = [0], W_att = [[0]],
      Wx = [[0]], Wh = [[0]], Wz = [[0]], b_cell = [0],
      W_ctx2out = [[0]], W_sel = [[0]], b_sel = [0],
      W1_decode = [[0]], b1_decode = [1], W2_decode = [[0, 1]], b2_decode = [0, 0]\<rparr>"

definition tiny_gen :: generator where
  \<comment> \<open>\<^verbatim>\<open>CaptionGenerator({'<NULL>': 0, '<START>': 1}, dim_feature=[1, 1], dim_embed=1,
      dim_hidden=1, n_time_step=1, cell_type='rnn', prev2out=False, ctx2out=False,
      alpha_c=0.0, selector=False, use_dropout=False)\<close>\<close>
  "tiny_gen = projr (init_generator tiny_weights [(''<NULL>'', 0), (''<START>'', 1)] [1, 1] 1 1
     (Some 1) ''rnn'' False False 0 False False)"

definition reg_gen :: generator where
  \<comment> \<open>as \<open>tiny_gen\<close>, with \<^verbatim>\<open>dim_feature=[4, 1], n_time_step=2, alpha_c=1.0\<close>\<close>
  "reg_gen = projr (init_generator tiny_weights [(''<NULL>'', 0), (''<START>'', 1)] [4, 1] 1 1
     (Some 2) ''rnn'' False False 1 False False)"

definition no_start_gen :: generator where
  \<comment> \<open>as \<open>tiny_gen\<close>, over the vocabulary \<^verbatim>\<open>{'<NULL>': 0, 'a': 1}\<close>\<close>
  "no_start_gen = projr (init_generator tiny_weights [(''<NULL>'', 0), (''a'', 1)] [1, 1] 1 1
     (Some 1) ''rnn'' False False 0 False False)"

definition keep_all :: draws where "keep_all = (\<lambda>site n j. True)"

definition drop_all :: draws where "drop_all = (\<lambda>site n j. False)"

section \<open>Observations of a training run\<close>

text \<open>
  \<open>step_logits\<close> is \<^verbatim>\<open>logits_out\<close> of step \<open>t\<close> and \<open>step_alphas\<close> is
  \<^verbatim>\<open>alpha_list\<close> after the loop; both are empty where the run raises.
  \<open>attention_penalty\<close> is the value of \<^verbatim>\<open>alpha_reg\<close> (lines 170-172) on a list of
  per-step attention weights.
\<close>

definition step_logits ::
  "layers \<Rightarrow> generator \<Rightarrow> draws \<Rightarrow> grid \<Rightarrow> nat list list \<Rightarrow> nat \<Rightarrow> mat" where
  "step_logits Ls g rnd features captions t =
     (case model_run Ls g rnd features captions t of
        Inl e \<Rightarrow> []
      | Inr st \<Rightarrow>
          (case model_logits Ls g rnd features (project_feature Ls features (W_proj_x g))
                  (captions_in g captions) t st of
             Inl e \<Rightarrow> []
           | Inr (next_h, next_c, alpha, logits_out) \<Rightarrow> logits_out))"

definition step_alphas ::
  "layers \<Rightarrow> generator \<Rightarrow> draws \<Rightarrow> grid \<Rightarrow> nat list list \<Rightarrow> mat list" where
  "step_alphas Ls g rnd features captions =
     (case model_run Ls g rnd features captions (n_T g) of
        Inl e \<Rightarrow> []
      | Inr st \<Rightarrow> alpha_list st)"

definition attention_penalty :: "generator \<Rightarrow> mat list \<Rightarrow> real" where
  "attention_penalty g alist =
     alpha_c g * reduce_sum_all (map (map (\<lambda>m. (16 / 196 - m)\<^sup>2)) (reduce_sum_1 (transpose alist)))"

text \<open>
  The penalty in the words of the specification (4.7): "\<^verbatim>\<open>alpha_c * sum((T/L -
  total_mass)^2)\<close>", with T and L the configured numbers of steps and of locations.
\<close>

definition alpha_reg_spec :: "generator \<Rightarrow> mat list \<Rightarrow> real" where
  "alpha_reg_spec g alist =
     alpha_c g * reduce_sum_all
       (map (map (\<lambda>total_mass. (real (n_T g) / real (dim_L g) - total_mass)\<^sup>2))
          (reduce_sum_1 (transpose alist)))"

text \<open>
  Two caption batches agree on the targets that the first one's mask keeps: at every
  position of \<^verbatim>\<open>captions_out\<close> the first batch holds the null index or both hold
  the same word.
\<close>

definition agree_on_unmasked :: "generator \<Rightarrow> nat list list \<Rightarrow> nat list list \<Rightarrow> bool" where
  "agree_on_unmasked g c1 c2 \<longleftrightarrow>
     list_all2 (list_all2 (\<lambda>w1 w2. w1 = null_idx g \<or> w1 = w2)) (captions_out c1) (captions_out c2)"

section \<open>Shapes\<close>

text \<open>
  The helpers work on a batch: what they return has one row per example of what they
  are given, and the attention weights of an example have one entry per location. The
  shape of the sampler's result depends on it, so it is a hypothesis there.
\<close>

definition affine_batchwise :: "layers \<Rightarrow> bool" where
  "affine_batchwise Ls \<longleftrightarrow>
     (\<forall>rd X W1 b1 W2 b2 fl. length (init_lstm Ls rd X W1 b1 W2 b2 fl) = length X)
   \<and> (\<forall>ws W. length (word_embedding_forward Ls ws W) = length ws)
   \<and> (\<forall>F W. length (project_feature Ls F W) = length F
          \<and> (\<forall>n<length F. length (project_feature Ls F W ! n) = length (F ! n)))
   \<and> (\<forall>X W b. length (affine_forward Ls X W b) = length X)
   \<and> (\<forall>X W b. length (affine_sigmoid_forward Ls X W b) = length X)"

definition attention_batchwise :: "layers \<Rightarrow> bool" where
  "attention_batchwise Ls \<longleftrightarrow>
     (\<forall>F P h Wp b Wa. length P = length F \<and> length h = length F \<longrightarrow>
          length (fst (attention_forward Ls F P h Wp b Wa)) = length F
        \<and> length (snd (attention_forward Ls F P h Wp b Wa)) = length F
        \<and> (\<forall>n<length F. length (snd (attention_forward Ls F P h Wp b Wa) ! n) = length (P ! n)))"

definition cell_batchwise :: "layers \<Rightarrow> bool" where
  "cell_batchwise Ls \<longleftrightarrow>
     (\<forall>x h z WX WH WZ b. length x = length h \<and> length z = length h \<longrightarrow>
          length (rnn_step_forward Ls x h z WX WH WZ b) = length h)
   \<and> (\<forall>x h c z WX WH WZ b. length x = length h \<and> length c = length h \<and> length z = length h \<longrightarrow>
          length (fst (lstm_step_forward Ls x h c z WX WH WZ b)) = length h
        \<and> length (snd (lstm_step_forward Ls x h c z WX WH WZ b)) = length h)"

definition batchwise :: "layers \<Rightarrow> bool" where
  "batchwise Ls \<longleftrightarrow> affine_batchwise Ls \<and> attention_batchwise Ls \<and> cell_batchwise Ls"

definition sample_inv :: "nat \<Rightarrow> nat \<Rightarrow> sample_state \<Rightarrow> bool" where
  "sample_inv N L st \<longleftrightarrow>
     length (prev_h st) = N \<and> length (prev_c st) = N
   \<and> list_all (\<lambda>a. length a = N \<and> list_all (\<lambda>r. length r = L) a) (alpha_list st)
   \<and> list_all (\<lambda>w. length w = N) (sampled_word_list st)
   \<and> (case sampled_word st of None \<Rightarrow> True | Some w \<Rightarrow> length w = N)"

section \<open>Evaluation on concrete inputs\<close>

lemmas layer_defs = spec_layers_def sp_init_lstm_def sp_affine_forward_def sp_word_embedding_forward_def
  sp_project_feature_def sp_attention_forward_def sp_rnn_step_forward_def cell_affine_def
  sp_softmax_loss_def softmax_def sp_affine_sigmoid_forward_def

lemmas engine_defs = vec_mat_def matmul_def mat_add_def broadcast_mul_def reduce_mean_1_def tf_tanh_def
  tf_dropout_def col_def pack_transpose_def reduce_sum_1_def reduce_sum_all_def tf_argmax_1_def argmax_row_def

lemmas driver_defs = build_model_def model_run_def model_init_def model_step_def model_logits_def
  model_cell_decode_def cell_step_def decode_hidden_def select_context_def feed_features_def feed_captions_def
  alpha_reg_def captions_in_def captions_out_def loss_mask_def
  build_sampler_def sampler_run_def sampler_init_def sampler_step_def sampler_logits_def sampler_cell_decode_def
  sampler_input_def

lemmas data_defs = tiny_gen_def reg_gen_def no_start_gen_def init_generator_def tiny_weights_def keep_all_def drop_all_def weights.defs generator.defs

section \<open>Properties of the loops\<close>

lemma unroll_append:
  "unroll step (ts @ [t]) st = (case unroll step ts st of Inl e \<Rightarrow> Inl e | Inr s \<Rightarrow> step t s)"
  by (induction ts arbitrary: st) (auto split: sum.splits)

lemma unroll_Suc:
  "unroll step [0..<Suc n] st =
     (case unroll step [0..<n] st of Inl e \<Rightarrow> Inl e | Inr s \<Rightarrow> step n s)"
  by (simp add: unroll_append)

lemma model_run_Suc:
  "model_run Ls g rnd features captions (Suc n) =
     (case model_run Ls g rnd features captions n of
        Inl e \<Rightarrow> Inl e
      | Inr st \<Rightarrow> model_step Ls g rnd features (project_feature Ls features (W_proj_x g))
                    (captions_in g captions) (captions_out captions) (loss_mask g captions) n st)"
  unfolding model_run_def by (rule unroll_Suc)

lemma sampler_run_Suc:
  "sampler_run Ls g rnd features (Suc n) =
     (case sampler_run Ls g rnd features n of
        Inl e \<Rightarrow> Inl e
      | Inr st \<Rightarrow> sampler_step Ls g features (project_feature Ls features (W_proj_x g)) n st)"
  unfolding sampler_run_def by (rule unroll_Suc)

lemma cell_step_ok:
  "cell_type g \<in> {''rnn'', ''lstm''} \<Longrightarrow> \<exists>h' c'. cell_step Ls g x h c context = Inr (h', c')"
  by (auto simp: cell_step_def)

lemma model_logits_ok:
  assumes "cell_type g \<in> {''rnn'', ''lstm''}"
  shows "\<exists>h c a lo. model_logits Ls g rnd features fp cin t st = Inr (h, c, a, lo)"
proof -
  obtain ctx alpha where att: "attention_forward Ls features fp (prev_h st)
             (W_proj_h g) (b_proj g) (W_att g) = (ctx, alpha)"
    by (metis surj_pair)
  obtain h' c' where "cell_step Ls g (word_embedding_forward Ls (col t cin) (W_embed g))
      (prev_h st) (prev_c st) (select_context Ls g (prev_h st) ctx) = Inr (h', c')"
    using cell_step_ok[OF assms] by blast
  then show ?thesis
    by (simp add: model_logits_def att model_cell_decode_def Let_def)
qed

lemma model_run_loss:
  assumes "cell_type g \<in> {''rnn'', ''lstm''}"
  shows "\<exists>st. model_run Ls g rnd features captions n = Inr st
           \<and> loss st = sum_list (map (\<lambda>t. softmax_loss Ls (step_logits Ls g rnd features captions t)
                          (col t (captions_out captions)) (col t (loss_mask g captions))) [0..<n])
           \<and> length (alpha_list st) = n"
proof (induction n)
  case 0
  show ?case by (simp add: model_run_def model_init_def Let_def)
next
  case (Suc n)
  then obtain st where st: "model_run Ls g rnd features captions n = Inr st"
    and l: "loss st = sum_list (map (\<lambda>t. softmax_loss Ls (step_logits Ls g rnd features captions t)
                          (col t (captions_out captions)) (col t (loss_mask g captions))) [0..<n])"
    and a: "length (alpha_list st) = n"
    by blast
  obtain h c al lo where ml: "model_logits Ls g rnd features (project_feature Ls features (W_proj_x g))
                  (captions_in g captions) n st = Inr (h, c, al, lo)"
    using model_logits_ok[OF assms] by blast
  have sl: "step_logits Ls g rnd features captions n = lo"
    by (simp add: step_logits_def st ml)
  show ?case
    by (simp add: model_run_Suc st model_step_def ml l a sl)
qed

lemma pack_transpose_nonempty: "xs \<noteq> [] \<Longrightarrow> pack_transpose xs = Inr (transpose xs)"
  by (cases xs) (simp_all add: pack_transpose_def)

lemma alpha_reg_nonempty:
  "alist \<noteq> [] \<Longrightarrow> alpha_reg g alist = Inr (attention_penalty g alist)"
  by (cases alist) (simp_all add: alpha_reg_def pack_transpose_def attention_penalty_def)

lemma build_model_total:
  assumes ct: "cell_type g \<in> {''rnn'', ''lstm''}"
    and ff: "feed_features g features"
    and fc: "feed_captions g captions"
    and len: "length captions = length features"
    and ne: "features \<noteq> []"
    and steps: "0 < alpha_c g \<longrightarrow> 0 < n_T g"
  shows "build_model Ls g rnd features captions =
     Inr ((sum_list (map (\<lambda>t. softmax_loss Ls (step_logits Ls g rnd features captions t)
                          (col t (captions_out captions)) (col t (loss_mask g captions))) [0..<n_T g])
           + (if 0 < alpha_c g then attention_penalty g (step_alphas Ls g rnd features captions) else 0))
          / real (length features))"
proof -
  obtain st where st: "model_run Ls g rnd features captions (n_T g) = Inr st"
    and l: "loss st = sum_list (map (\<lambda>t. softmax_loss Ls (step_logits Ls g rnd features captions t)
                          (col t (captions_out captions)) (col t (loss_mask g captions))) [0..<n_T g])"
    and a: "length (alpha_list st) = n_T g"
    using model_run_loss[OF ct] by blast
  have sa: "step_alphas Ls g rnd features captions = alpha_list st"
    by (simp add: step_alphas_def st)
  show ?thesis
  proof (cases "0 < alpha_c g")
    case True
    then have "alpha_list st \<noteq> []" using steps a by auto
    then have "alpha_reg g (alpha_list st) = Inr (attention_penalty g (alpha_list st))"
      by (rule alpha_reg_nonempty)
    then show ?thesis using True ff fc len ne
      by (simp add: build_model_def st l sa)
  next
    case False
    then show ?thesis using ff fc len ne
      by (simp add: build_model_def st l sa)
  qed
qed

lemma sampler_step_lists:
  assumes "sampler_step Ls g features fp t st = Inr st'"
  shows "\<exists>x h c a lo. sampler_input Ls g (length features) t st = Inr x
           \<and> sampler_logits Ls g features fp st x = Inr (h, c, a, lo)
           \<and> st' = \<lparr>prev_h = h, prev_c = c, alpha_list = alpha_list st @ [a],
                    sampled_word = Some (tf_argmax_1 lo),
                    sampled_word_list = sampled_word_list st @ [tf_argmax_1 lo]\<rparr>"
  using assms by (auto simp: sampler_step_def Let_def split: sum.splits prod.splits)

lemma sampler_run_prefix:
  assumes "sampler_run Ls g rnd features n = Inr st" and "m \<le> n"
  shows "\<exists>sm. sampler_run Ls g rnd features m = Inr sm
           \<and> sampled_word_list sm = take m (sampled_word_list st)
           \<and> alpha_list sm = take m (alpha_list st)
           \<and> length (sampled_word_list st) = n \<and> length (alpha_list st) = n
           \<and> sampled_word st = (if n = 0 then None else Some (last (sampled_word_list st)))"
  using assms
proof (induction n arbitrary: st m)
  case 0
  then show ?case by (auto simp: sampler_run_def sampler_init_def Let_def)
next
  case (Suc n)
  from Suc.prems(1) obtain sn where sn: "sampler_run Ls g rnd features n = Inr sn"
    and step: "sampler_step Ls g features (project_feature Ls features (W_proj_x g)) n sn = Inr st"
    by (auto simp: sampler_run_Suc split: sum.splits)
  from sampler_step_lists[OF step] obtain w a where
    wl: "sampled_word_list st = sampled_word_list sn @ [w]"
    and al: "alpha_list st = alpha_list sn @ [a]"
    and sw: "sampled_word st = Some w"
    by auto
  from Suc.IH[OF sn, of n] have ln: "length (sampled_word_list sn) = n" "length (alpha_list sn) = n"
    by auto
  show ?case
  proof (cases "m = Suc n")
    case True
    then show ?thesis using Suc.prems(1) wl al sw ln by simp
  next
    case False
    then have "m \<le> n" using Suc.prems(2) by simp
    from Suc.IH[OF sn this] obtain sm where "sampler_run Ls g rnd features m = Inr sm"
      "sampled_word_list sm = take m (sampled_word_list sn)" "alpha_list sm = take m (alpha_list sn)"
      by blast
    then show ?thesis using wl al sw ln \<open>m \<le> n\<close> by simp
  qed
qed

lemma build_sampler_run:
  assumes "build_sampler Ls g rnd F max_len = Inr (alphas, caps)"
  shows "\<exists>st. sampler_run Ls g rnd F max_len = Inr st
           \<and> alphas = transpose (alpha_list st) \<and> caps = transpose (sampled_word_list st)"
  using assms
  by (auto simp: build_sampler_def pack_transpose_def split: sum.splits list.splits if_splits)

lemma build_sampler_no_start:
  assumes "start_idx g = None"
  shows "build_sampler Ls g rnd F max_len = Inl EngineError"
proof (cases max_len)
  case 0
  then show ?thesis
    by (simp add: build_sampler_def sampler_run_def sampler_init_def pack_transpose_def Let_def)
next
  case (Suc n)
  have "[0..<Suc n] = 0 # [1..<Suc n]" by (simp add: upt_rec)
  then show ?thesis using assms Suc
    by (simp add: build_sampler_def sampler_run_def sampler_step_def sampler_input_def)
qed

section \<open>The largest logit\<close>

lemma argmax_from_props:
  "best < i \<Longrightarrow> (let k = argmax_from best bv i vs in
      (k = best \<or> (i \<le> k \<and> k < i + length vs))
      \<and> (k = best \<longrightarrow> (\<forall>v \<in> set vs. v \<le> bv))
      \<and> (k \<noteq> best \<longrightarrow> bv < vs ! (k - i) \<and> (\<forall>v \<in> set vs. v \<le> vs ! (k - i))))"
proof (induction vs arbitrary: best bv i)
  case Nil
  then show ?case by simp
next
  case (Cons v vs)
  show ?case
  proof (cases "bv < v")
    case True
    have "i < Suc i" by simp
    from Cons.IH[OF this, of v] True Cons.prems show ?thesis
      apply (simp add: Let_def)
      apply (auto simp: nth_Cons' Suc_diff_le)
      done
  next
    case False
    have "best < Suc i" using Cons.prems by simp
    from Cons.IH[OF this, of bv] False Cons.prems show ?thesis
      apply (simp add: Let_def)
      apply (auto simp: nth_Cons' Suc_diff_le)
      done
  qed
qed

lemma argmax_row_max:
  assumes "r \<noteq> []"
  shows "argmax_row r < length r \<and> (\<forall>v \<in> set r. v \<le> r ! argmax_row r)"
proof -
  obtain v vs where r: "r = v # vs" using assms by (cases r) auto
  have "(0::nat) < 1" by simp
  from argmax_from_props[OF this, of v vs] show ?thesis
    unfolding r argmax_row_def
    apply (simp add: Let_def)
    apply (auto simp: nth_Cons')
    done
qed

section \<open>Shapes through the sampler\<close>

lemma bw_init: "batchwise Ls \<Longrightarrow> length (init_lstm Ls rd X W1 b1 W2 b2 fl) = length X"
  by (simp add: batchwise_def affine_batchwise_def)

lemma bw_embed: "batchwise Ls \<Longrightarrow> length (word_embedding_forward Ls ws W) = length ws"
  by (simp add: batchwise_def affine_batchwise_def)

lemma bw_proj: "batchwise Ls \<Longrightarrow> length (project_feature Ls F W) = length F"
  by (simp add: batchwise_def affine_batchwise_def)

lemma bw_proj_row: "batchwise Ls \<Longrightarrow> n < length F \<Longrightarrow> length (project_feature Ls F W ! n) = length (F ! n)"
  by (simp add: batchwise_def affine_batchwise_def)

lemma bw_affine: "batchwise Ls \<Longrightarrow> length (affine_forward Ls X W b) = length X"
  by (simp add: batchwise_def affine_batchwise_def)

lemma bw_sigmoid: "batchwise Ls \<Longrightarrow> length (affine_sigmoid_forward Ls X W b) = length X"
  by (simp add: batchwise_def affine_batchwise_def)

lemma bw_att:
  assumes "batchwise Ls" "length P = length F" "length h = length F"
    and att: "attention_forward Ls F P h Wp b Wa = (ctx, alpha)"
  shows "length ctx = length F \<and> length alpha = length F \<and> (\<forall>n<length F. length (alpha ! n) = length (P ! n))"
proof -
  from assms(1) have "attention_batchwise Ls" by (simp add: batchwise_def)
  then have "length (fst (attention_forward Ls F P h Wp b Wa)) = length F
        \<and> length (snd (attention_forward Ls F P h Wp b Wa)) = length F
        \<and> (\<forall>n<length F. length (snd (attention_forward Ls F P h Wp b Wa) ! n) = length (P ! n))"
    unfolding attention_batchwise_def using assms(2,3) by blast
  then show ?thesis by (simp add: att)
qed

lemma bw_rnn:
  assumes "batchwise Ls" "length x = length h" "length z = length h"
  shows "length (rnn_step_forward Ls x h z WX WH WZ b) = length h"
proof -
  from assms(1) have "cell_batchwise Ls" by (simp add: batchwise_def)
  then show ?thesis unfolding cell_batchwise_def using assms(2,3) by blast
qed

lemma bw_lstm:
  assumes "batchwise Ls" "length x = length h" "length c = length h" "length z = length h"
    and l: "lstm_step_forward Ls x h c z WX WH WZ b = (h', c')"
  shows "length h' = length h \<and> length c' = length h"
proof -
  from assms(1) have "cell_batchwise Ls" by (simp add: batchwise_def)
  then have "length (fst (lstm_step_forward Ls x h c z WX WH WZ b)) = length h
        \<and> length (snd (lstm_step_forward Ls x h c z WX WH WZ b)) = length h"
    unfolding cell_batchwise_def using assms(2,3,4) by blast
  then show ?thesis by (simp add: l)
qed

lemma length_select_context:
  "batchwise Ls \<Longrightarrow> length ctx = length h \<Longrightarrow> length (select_context Ls g h ctx) = length h"
  by (simp add: select_context_def broadcast_mul_def bw_sigmoid Let_def)

lemma length_decode_hidden:
  "batchwise Ls \<Longrightarrow> length x = length h \<Longrightarrow> length ctx = length h \<Longrightarrow>
     length (decode_hidden Ls g h x ctx) = length h"
  by (simp add: decode_hidden_def mat_add_def matmul_def bw_affine Let_def)

lemma cell_step_length:
  assumes bw: "batchwise Ls" and lx: "length x = length h" and lc: "length c = length h"
    and lz: "length ctx = length h"
    and cs: "cell_step Ls g x h c ctx = Inr (h', c')"
  shows "length h' = length h \<and> length c' = length h"
proof (cases "cell_type g = ''rnn''")
  case True
  with cs have "h' = rnn_step_forward Ls x h ctx (Wx g) (Wh g) (Wz g) (b_cell g)" "c' = c"
    by (simp_all add: cell_step_def)
  then show ?thesis using bw_rnn[OF bw lx lz] lc by simp
next
  case False
  with cs have "lstm_step_forward Ls x h c ctx (Wx g) (Wh g) (Wz g) (b_cell g) = (h', c')"
    by (simp add: cell_step_def split: if_splits)
  from bw_lstm[OF bw lx lc lz this] show ?thesis .
qed

lemma feed_features_rows:
  "feed_features g F \<Longrightarrow> n < length F \<Longrightarrow> length (F ! n) = dim_L g"
  by (simp add: feed_features_def list_all_length)

lemma sampler_step_inv:
  assumes bw: "batchwise Ls" and ct: "cell_type g \<in> {''rnn'', ''lstm''}"
    and ff: "feed_features g F"
    and start: "start_idx g = Some s"
    and inv: "sample_inv (length F) (dim_L g) st"
    and bound: "t = 0 \<or> sampled_word st \<noteq> None"
  shows "\<exists>st'. sampler_step Ls g F (project_feature Ls F W) t st = Inr st'
           \<and> sample_inv (length F) (dim_L g) st' \<and> sampled_word st' \<noteq> None"
proof -
  let ?N = "length F"
  let ?P = "project_feature Ls F W"
  from inv have lh: "length (prev_h st) = ?N" and lc: "length (prev_c st) = ?N"
    and la: "list_all (\<lambda>a. length a = ?N \<and> list_all (\<lambda>r. length r = dim_L g) a) (alpha_list st)"
    and lw: "list_all (\<lambda>w. length w = ?N) (sampled_word_list st)"
    and lsw: "case sampled_word st of None \<Rightarrow> True | Some w \<Rightarrow> length w = ?N"
    by (simp_all add: sample_inv_def)
  obtain x where x: "sampler_input Ls g ?N t st = Inr x" and lx: "length x = ?N"
  proof (cases "t = 0")
    case True
    then show ?thesis using start that by (simp add: sampler_input_def bw_embed[OF bw])
  next
    case False
    with bound obtain w where w: "sampled_word st = Some w" by auto
    with lsw have "length w = ?N" by simp
    then show ?thesis using False w that by (simp add: sampler_input_def bw_embed[OF bw])
  qed
  obtain ctx alpha where att: "attention_forward Ls F ?P (prev_h st) (W_proj_h g) (b_proj g) (W_att g)
      = (ctx, alpha)" by (metis surj_pair)
  have lP: "length ?P = ?N" by (rule bw_proj[OF bw])
  from bw_att[OF bw lP lh att] have lctx: "length ctx = ?N" and lalpha: "length alpha = ?N"
    and rows: "\<forall>n<?N. length (alpha ! n) = length (?P ! n)" by auto
  have arows: "list_all (\<lambda>r. length r = dim_L g) alpha"
    unfolding list_all_length
  proof (intro allI impI)
    fix n assume "n < length alpha"
    then have n: "n < ?N" using lalpha by simp
    then have "length (alpha ! n) = length (?P ! n)" using rows by simp
    also have "\<dots> = length (F ! n)" by (rule bw_proj_row[OF bw n])
    also have "\<dots> = dim_L g" by (rule feed_features_rows[OF ff n])
    finally show "length (alpha ! n) = dim_L g" .
  qed
  let ?z = "select_context Ls g (prev_h st) ctx"
  have lz: "length ?z = length (prev_h st)"
    by (rule length_select_context[OF bw]) (simp add: lctx lh)
  obtain h' c' where cs: "cell_step Ls g x (prev_h st) (prev_c st) ?z = Inr (h', c')"
    using cell_step_ok[OF ct] by blast
  have "length x = length (prev_h st)" "length (prev_c st) = length (prev_h st)"
    by (simp_all add: lx lh lc)
  from cell_step_length[OF bw this lz cs] have lh': "length h' = ?N" and lc': "length c' = ?N"
    by (simp_all add: lh)
  let ?lo = "affine_forward Ls (tf_tanh (decode_hidden Ls g h' x ?z)) (W2_decode g) (b2_decode g)"
  have "length (decode_hidden Ls g h' x ?z) = length h'"
    by (rule length_decode_hidden[OF bw]) (simp_all add: lx lh' lz lh)
  then have llo: "length ?lo = ?N"
    by (simp add: bw_affine[OF bw] tf_tanh_def lh')
  have step: "sampler_step Ls g F ?P t st =
      Inr \<lparr>prev_h = h', prev_c = c', alpha_list = alpha_list st @ [alpha],
           sampled_word = Some (tf_argmax_1 ?lo),
           sampled_word_list = sampled_word_list st @ [tf_argmax_1 ?lo]\<rparr>"
    by (simp add: sampler_step_def x sampler_logits_def att sampler_cell_decode_def cs Let_def)
  show ?thesis
    unfolding step
    by (simp add: sample_inv_def lh' lc' la lw lalpha arows llo tf_argmax_1_def)
qed

lemma sampler_init_inv:
  "batchwise Ls \<Longrightarrow> sample_inv (length F) L (sampler_init Ls g rnd F)"
  by (simp add: sample_inv_def sampler_init_def Let_def bw_init reduce_mean_1_def)

lemma sampler_run_inv:
  assumes bw: "batchwise Ls" and ct: "cell_type g \<in> {''rnn'', ''lstm''}"
    and ff: "feed_features g F"
    and start: "start_idx g = Some s"
  shows "\<exists>st. sampler_run Ls g rnd F n = Inr st \<and> sample_inv (length F) (dim_L g) st
           \<and> (0 < n \<longrightarrow> sampled_word st \<noteq> None)"
proof (induction n)
  case 0
  show ?case by (simp add: sampler_run_def sampler_init_inv[OF bw])
next
  case (Suc n)
  then obtain st where st: "sampler_run Ls g rnd F n = Inr st"
    and inv: "sample_inv (length F) (dim_L g) st"
    and sw: "0 < n \<longrightarrow> sampled_word st \<noteq> None" by blast
  have "n = 0 \<or> sampled_word st \<noteq> None" using sw by auto
  from sampler_step_inv[OF bw ct ff start inv this, of "W_proj_x g"]
  show ?case by (auto simp: sampler_run_Suc st)
qed

lemma transpose_shape:
  assumes ne: "xs \<noteq> []" and rect: "list_all (\<lambda>x. length x = n) xs"
  shows "length (transpose xs) = n
       \<and> list_all (\<lambda>r. length r = length xs \<and> set r \<subseteq> \<Union> (set ` set xs)) (transpose xs)"
proof -
  have eq: "transpose xs = map (\<lambda>i. map (\<lambda>j. xs ! j ! i) [0..<length xs]) [0..<n]"
    by (rule transpose_rectangle) (use ne rect in \<open>auto simp: list_all_length\<close>)
  have "\<And>i j. i < n \<Longrightarrow> j < length xs \<Longrightarrow> xs ! j ! i \<in> \<Union> (set ` set xs)"
  proof -
    fix i j assume i: "i < n" and j: "j < length xs"
    then have "length (xs ! j) = n" using rect by (simp add: list_all_length)
    then have "xs ! j ! i \<in> set (xs ! j)" using i by simp
    moreover have "xs ! j \<in> set xs" using j by simp
    ultimately show "xs ! j ! i \<in> \<Union> (set ` set xs)" by blast
  qed
  then show ?thesis unfolding eq
    by (auto simp: list_all_iff)
qed

lemma spec_layers_batchwise: "batchwise spec_layers"
  unfolding batchwise_def
proof (intro conjI)
  show "affine_batchwise spec_layers"
    by (simp add: affine_batchwise_def spec_layers_def sp_init_lstm_def sp_affine_forward_def
          sp_word_embedding_forward_def sp_project_feature_def sp_affine_sigmoid_forward_def
          tf_tanh_def tf_dropout_def matmul_def Let_def)
  show "attention_batchwise spec_layers"
    by (simp add: attention_batchwise_def spec_layers_def sp_attention_forward_def
          sp_affine_forward_def softmax_def Let_def)
  show "cell_batchwise spec_layers"
    by (simp add: cell_batchwise_def spec_layers_def sp_rnn_step_forward_def
          sp_lstm_step_forward_def cell_affine_def tf_tanh_def mat_add_def matmul_def Let_def)
qed

section \<open>The masked loss\<close>

lemma masked_sum_zip:
  "sum_list (map2 (\<lambda>l (w, v). if v then ce l w else 0) lo (zip y (map f y)))
     = sum_list (map2 (\<lambda>l w. if f w then ce l w else 0) lo y)"
proof (induction lo arbitrary: y)
  case Nil
  show ?case by simp
next
  case (Cons l lo)
  show ?case by (cases y) (simp_all add: Cons.IH)
qed

lemma col_loss_mask:
  assumes fc: "feed_captions g captions" and t: "t < n_T g"
  shows "col t (loss_mask g captions) = map (\<lambda>w. w \<noteq> null_idx g) (col t (captions_out captions))"
proof -
  have "\<And>r. r \<in> set captions \<Longrightarrow> t < length (drop 1 r)"
    using fc t by (auto simp: feed_captions_def list_all_iff)
  then show ?thesis
    by (simp add: col_def loss_mask_def captions_out_def)
qed

lemma spec_layers_masked:
  "\<forall>lo y m. softmax_loss spec_layers lo y m
     = sum_list (map2 (\<lambda>l (w, v). if v then - ln (softmax l ! w) else 0) lo (zip y m))"
  by (simp add: spec_layers_def sp_softmax_loss_def)

lemma masked_all_null:
  "list_all (\<lambda>w. w = nul) ys
     \<Longrightarrow> sum_list (map2 (\<lambda>l w. if w \<noteq> nul then ce l w else 0) lo ys) = 0"
proof (induction lo arbitrary: ys)
  case Nil
  show ?case by simp
next
  case (Cons l lo)
  then show ?case by (cases ys) simp_all
qed

section \<open>Construction\<close>

text \<open>
  C10. A cell type other than \<^verbatim>\<open>'rnn'\<close> and \<^verbatim>\<open>'lstm'\<close> makes construction raise
  ValueError, whatever the other arguments are (the check is the first statement of
  \<^verbatim>\<open>__init__\<close>, before any weight or placeholder is created); with either of the two
  values construction does not raise ValueError.
\<close>

theorem init_generator_cell_type:
  "(ctype \<notin> {''rnn'', ''lstm''} \<longrightarrow>
      init_generator drawn w2i dim_feature dim_embed dim_hidden n_time_step ctype
        p2o c2o ac sel udrop = Inl ValueError)
   \<and> (ctype \<in> {''rnn'', ''lstm''} \<longrightarrow>
      init_generator drawn w2i dim_feature dim_embed dim_hidden n_time_step ctype
        p2o c2o ac sel udrop \<noteq> Inl ValueError)"
  by (auto simp: init_generator_def split: list.splits option.splits)

theorem init_generator_cell_type_witness:
  "init_generator tiny_weights [(''<NULL>'', 0), (''<START>'', 1)] [1, 1] 1 1 (Some 1) ''gru''
       False False 0 False False = Inl ValueError
   \<and> init_generator tiny_weights [(''<NULL>'', 0), (''<START>'', 1)] [1, 1] 1 1 (Some 1) ''lstm''
       False False 0 False False \<noteq> Inl ValueError"
proof -
  have a: "''gru'' \<notin> {''rnn'', ''lstm''}" by simp
  have b: "''lstm'' \<in> {''rnn'', ''lstm''}" by simp
  show ?thesis
    by (intro conjI init_generator_cell_type[THEN conjunct1, THEN mp, OF a]
          init_generator_cell_type[THEN conjunct2, THEN mp, OF b])
qed

text \<open>
  C4. Over a vocabulary without \<^verbatim>\<open>'<START>'\<close> construction succeeds (the other
  arguments being good) and leaves \<^verbatim>\<open>self._start\<close> at \<^verbatim>\<open>None\<close>; the sampler of such
  a generator fails for every instance of the helpers, every batch of features and every
  \<^verbatim>\<open>max_len\<close>: step 0 has no tensor for the start index (and with no step at all there
  is nothing to stack).
\<close>

theorem sampler_needs_start_token:
  assumes "ctype \<in> {''rnn'', ''lstm''}" and "dim_feature = l # d # rest"
    and "map_of w2i ''<NULL>'' = Some nul" and "n_time_step = Some T"
    and "map_of w2i ''<START>'' = None"
  shows "\<exists>g. init_generator drawn w2i dim_feature dim_embed dim_hidden n_time_step ctype
               p2o c2o ac sel udrop = Inr g
           \<and> start_idx g = None
           \<and> (\<forall>Ls rnd F max_len. build_sampler Ls g rnd F max_len = Inl EngineError)"
proof -
  obtain g where g: "init_generator drawn w2i dim_feature dim_embed dim_hidden n_time_step ctype
               p2o c2o ac sel udrop = Inr g" and s: "start_idx g = None"
    using assms by (auto simp: init_generator_def generator.defs weights.defs)
  from build_sampler_no_start[OF s] g s show ?thesis by blast
qed

theorem sampler_needs_start_token_witness:
  "map_of [(''<NULL>'', 0), (''a'', 1)] ''<NULL>'' = Some (0::nat)
   \<and> map_of [(''<NULL>'', 0), (''a'', 1)] ''<START>'' = (None :: nat option)
   \<and> (\<exists>g. init_generator tiny_weights [(''<NULL>'', 0), (''a'', 1)] [1, 1] 1 1 (Some 1) ''rnn''
               False False 0 False False = Inr g
           \<and> start_idx g = None
           \<and> (\<forall>Ls rnd F max_len. build_sampler Ls g rnd F max_len = Inl EngineError))"
proof -
  have a: "''rnn'' \<in> {''rnn'', ''lstm''}" by simp
  have b: "[1, 1::nat] = 1 # 1 # []" by simp
  have c: "map_of [(''<NULL>'', 0), (''a'', 1)] ''<NULL>'' = Some (0::nat)" by simp
  have d: "Some (1::nat) = Some 1" by simp
  have e: "map_of [(''<NULL>'', 0), (''a'', 1)] ''<START>'' = (None :: nat option)" by simp
  show ?thesis
    by (intro conjI c e sampler_needs_start_token[OF a b c d e])
qed

section \<open>The training driver\<close>



text \<open>
  C6. For a generator with a recognized cell type, fed features and captions of the
  declared shapes for a batch of N > 0 examples (and with at least one step when the
  attention penalty is on), the value of \<^verbatim>\<open>build_model\<close> is the sum over the T steps
  of the step's \<^verbatim>\<open>softmax_loss\<close>, plus the attention penalty when \<^verbatim>\<open>alpha_c\<close> is
  positive, divided by N: the batch size, not the number of unmasked targets.
\<close>

theorem build_model_mean_per_example:
  assumes "cell_type g \<in> {''rnn'', ''lstm''}"
    and "feed_features g F" and "feed_captions g captions"
    and "length captions = length F" and "F \<noteq> []"
    and "0 < alpha_c g \<longrightarrow> 0 < n_T g"
  shows "build_model Ls g rnd F captions =
     Inr ((sum_list (map (\<lambda>t. softmax_loss Ls (step_logits Ls g rnd F captions t)
                          (col t (captions_out captions)) (col t (loss_mask g captions))) [0..<n_T g])
           + (if 0 < alpha_c g then attention_penalty g (step_alphas Ls g rnd F captions) else 0))
          / real (length F))"
  using assms by (rule build_model_total)

theorem build_model_mean_per_example_witness:
  "cell_type reg_gen \<in> {''rnn'', ''lstm''}
   \<and> feed_features reg_gen ([[[0], [0], [0], [0]]]::grid) \<and> feed_captions reg_gen [[1, 1, 1]]
   \<and> 0 < alpha_c reg_gen \<and> 0 < n_T reg_gen
   \<and> build_model spec_layers reg_gen drop_all ([[[0], [0], [0], [0]]]::grid) [[1, 1, 1]]
       = Inr ((ln 2 + ln 2 + 1681 / 2401) / 1)"
proof -
  have ct: "cell_type reg_gen \<in> {''rnn'', ''lstm''}" by (simp add: data_defs)
  have ff: "feed_features reg_gen ([[[0], [0], [0], [0]]]::grid)" by (simp add: feed_features_def data_defs)
  have fc: "feed_captions reg_gen [[1, 1, 1]]" by (simp add: feed_captions_def data_defs)
  have len: "length [[1, 1, 1::nat]] = length ([[[0], [0], [0], [0]]]::grid)" by simp
  have ne: "([[[0], [0], [0], [0]]]::grid) \<noteq> []" by simp
  have ac: "0 < alpha_c reg_gen" and nt: "0 < n_T reg_gen" by (simp_all add: data_defs)
  have steps: "0 < alpha_c reg_gen \<longrightarrow> 0 < n_T reg_gen" using nt by simp
  have run1: "model_run spec_layers reg_gen drop_all ([[[0], [0], [0], [0]]]::grid) [[1, 1, 1]] (Suc 0)
      = Inr \<lparr>prev_h = [[0]], prev_c = [[0]], alpha_list = [[[1/4, 1/4, 1/4, 1/4]]],
             loss = ln 2\<rparr>"
    by (simp add: model_run_def model_init_def model_step_def model_logits_def
          model_cell_decode_def cell_step_def decode_hidden_def select_context_def
          captions_in_def captions_out_def loss_mask_def layer_defs engine_defs data_defs
          Let_def ln_div)
  have build: "build_model spec_layers reg_gen drop_all ([[[0], [0], [0], [0]]]::grid) [[1, 1, 1]] =
     Inr ((sum_list (map (\<lambda>t. softmax_loss spec_layers
                              (step_logits spec_layers reg_gen drop_all ([[[0], [0], [0], [0]]]::grid) [[1, 1, 1]] t)
                              (col t (captions_out [[1, 1, 1]]))
                              (col t (loss_mask reg_gen [[1, 1, 1]]))) [0..<n_T reg_gen])
           + (if 0 < alpha_c reg_gen
              then attention_penalty reg_gen (step_alphas spec_layers reg_gen drop_all ([[[0], [0], [0], [0]]]::grid) [[1, 1, 1]])
              else 0))
          / real (length ([[[0], [0], [0], [0]]]::grid)))"
    by (rule build_model_mean_per_example[OF ct ff fc len ne steps])
  have val: "build_model spec_layers reg_gen drop_all ([[[0], [0], [0], [0]]]::grid) [[1, 1, 1]]
       = Inr ((ln 2 + ln 2 + 1681 / 2401) / 1)"
    unfolding build
    by (simp add: step_logits_def step_alphas_def attention_penalty_def
          model_run_Suc[of _ _ _ _ _ "Suc 0"] run1
          model_run_def model_init_def model_step_def model_logits_def
          model_cell_decode_def cell_step_def decode_hidden_def select_context_def
          captions_in_def captions_out_def loss_mask_def layer_defs engine_defs data_defs
          Let_def ln_div upt_rec power2_eq_square)
  show ?thesis by (intro conjI ct ff fc ac nt val)
qed

text \<open>
  C5, as stated: two caption batches that agree wherever the first one's mask is true
  get the same loss. It fails: \<^verbatim>\<open>[[1, 0]]\<close> holds the null index 0 at its only target
  position, \<^verbatim>\<open>[[1, 1]]\<close> differs from it at that position only, and their losses are 0
  and ln 2. The mask is computed from the stored values, so a position is padding
  exactly when it holds the null index, and storing another value there makes it a
  target.
\<close>

theorem padding_value_changes_loss:
  "agree_on_unmasked tiny_gen [[1, 0]] [[1, 1]]
   \<and> build_model spec_layers tiny_gen drop_all [[[0]]] [[1, 0]] = Inr 0
   \<and> build_model spec_layers tiny_gen drop_all [[[0]]] [[1, 1]] = Inr (ln 2)
   \<and> build_model spec_layers tiny_gen drop_all [[[0]]] [[1, 0]]
       \<noteq> build_model spec_layers tiny_gen drop_all [[[0]]] [[1, 1]]"
  by (simp add: driver_defs layer_defs engine_defs data_defs Let_def ln_div agree_on_unmasked_def)

text \<open>
  C5, amended. Where \<^verbatim>\<open>softmax_loss\<close> is a masked sum of a per-example term \<open>ce\<close>,
  the loss is the sum, over the steps and the examples, of \<open>ce\<close> on the step's logits
  and the target at the positions whose target is not the null index, and of 0 at the
  others (plus the penalty, divided by N): a position of \<^verbatim>\<open>captions_out\<close> that holds
  the null index adds nothing to the loss, whatever the logits there are.
\<close>

theorem null_targets_contribute_zero:
  assumes masked: "\<forall>lo y m. softmax_loss Ls lo y m
                     = sum_list (map2 (\<lambda>l (w, v). if v then ce l w else 0) lo (zip y m))"
    and ct: "cell_type g \<in> {''rnn'', ''lstm''}"
    and ff: "feed_features g F" and fc: "feed_captions g captions"
    and len: "length captions = length F" and ne: "F \<noteq> []"
    and steps: "0 < alpha_c g \<longrightarrow> 0 < n_T g"
  shows "build_model Ls g rnd F captions =
     Inr ((sum_list (map (\<lambda>t. sum_list (map2 (\<lambda>l w. if w \<noteq> null_idx g then ce l w else 0)
                                 (step_logits Ls g rnd F captions t)
                                 (col t (captions_out captions)))) [0..<n_T g])
           + (if 0 < alpha_c g then attention_penalty g (step_alphas Ls g rnd F captions) else 0))
          / real (length F))"
proof -
  have step: "\<And>t. t \<in> set [0..<n_T g] \<Longrightarrow>
      softmax_loss Ls (step_logits Ls g rnd F captions t)
        (col t (captions_out captions)) (col t (loss_mask g captions))
      = sum_list (map2 (\<lambda>l w. if w \<noteq> null_idx g then ce l w else 0)
          (step_logits Ls g rnd F captions t) (col t (captions_out captions)))"
  proof -
    fix t assume "t \<in> set [0..<n_T g]"
    then have t: "t < n_T g" by simp
    show "softmax_loss Ls (step_logits Ls g rnd F captions t)
        (col t (captions_out captions)) (col t (loss_mask g captions))
      = sum_list (map2 (\<lambda>l w. if w \<noteq> null_idx g then ce l w else 0)
          (step_logits Ls g rnd F captions t) (col t (captions_out captions)))"
      unfolding col_loss_mask[OF fc t] using masked by (simp add: masked_sum_zip)
  qed
  have "map (\<lambda>t. softmax_loss Ls (step_logits Ls g rnd F captions t)
                (col t (captions_out captions)) (col t (loss_mask g captions))) [0..<n_T g]
      = map (\<lambda>t. sum_list (map2 (\<lambda>l w. if w \<noteq> null_idx g then ce l w else 0)
                (step_logits Ls g rnd F captions t) (col t (captions_out captions)))) [0..<n_T g]"
    by (rule map_cong[OF refl step])
  then show ?thesis
    by (simp only: build_model_total[OF ct ff fc len ne steps])
qed

theorem null_targets_contribute_zero_witness:
  "(\<forall>lo y m. softmax_loss spec_layers lo y m
       = sum_list (map2 (\<lambda>l (w, v). if v then - ln (softmax l ! w) else 0) lo (zip y m)))
   \<and> cell_type tiny_gen \<in> {''rnn'', ''lstm''}
   \<and> feed_features tiny_gen [[[0]]] \<and> feed_captions tiny_gen [[1, 0]]
   \<and> 0 < n_T tiny_gen
   \<and> build_model spec_layers tiny_gen keep_all [[[0]]] [[1, 0]] = Inr 0"
proof -
  have ct: "cell_type tiny_gen \<in> {''rnn'', ''lstm''}" by (simp add: data_defs)
  have ff: "feed_features tiny_gen [[[0]]]" by (simp add: feed_features_def data_defs)
  have fc: "feed_captions tiny_gen [[1, 0]]" by (simp add: feed_captions_def data_defs)
  have len: "length [[1, 0::nat]] = length [[[0::real]]]" by simp
  have ne: "[[[0::real]]] \<noteq> []" by simp
  have nt: "0 < n_T tiny_gen" by (simp add: data_defs)
  have steps: "0 < alpha_c tiny_gen \<longrightarrow> 0 < n_T tiny_gen" using nt by simp
  have nul: "null_idx tiny_gen = 0" and ac: "alpha_c tiny_gen = 0" and one: "n_T tiny_gen = 1"
    by (simp_all add: data_defs)
  have c0: "col 0 (captions_out [[1, 0::nat]]) = [null_idx tiny_gen]"
    by (simp add: col_def captions_out_def nul)
  have z: "sum_list (map2 (\<lambda>l w. if w \<noteq> null_idx tiny_gen then - ln (softmax l ! w) else 0)
             (step_logits spec_layers tiny_gen keep_all [[[0]]] [[1, 0]] 0)
             (col 0 (captions_out [[1, 0]]))) = 0"
    unfolding c0 by (rule masked_all_null) simp
  have val: "build_model spec_layers tiny_gen keep_all [[[0]]] [[1, 0]] = Inr 0"
    unfolding null_targets_contribute_zero[OF spec_layers_masked ct ff fc len ne steps]
    using z by (simp add: ac one)
  show ?thesis by (intro conjI spec_layers_masked ct ff fc nt val)
qed

text \<open>
  C1. The attention penalty of the code takes its target from the literal
  \<^verbatim>\<open>16./196\<close>. With T = 2 steps and L = 4 locations, and attention weights 1/4 at
  every location in both steps (the total mass of a location is 2/4 = T/L), the code adds
  \<open>4 * (16/196 - 1/2)\<^sup>2 = 1681/2401\<close> to the loss, where the penalty with target T/L
  is 0.
\<close>

theorem attention_penalty_target_fixed:
  "0 < alpha_c reg_gen \<and> n_T reg_gen = 2 \<and> dim_L reg_gen = 4
   \<and> step_alphas spec_layers reg_gen drop_all [[[0], [0], [0], [0]]] [[1, 0, 0]]
       = [[[1/4, 1/4, 1/4, 1/4]], [[1/4, 1/4, 1/4, 1/4]]]
   \<and> build_model spec_layers reg_gen drop_all [[[0], [0], [0], [0]]] [[1, 0, 0]]
       = Inr (1681 / 2401)
   \<and> alpha_reg_spec reg_gen [[[1/4, 1/4, 1/4, 1/4]], [[1/4, 1/4, 1/4, 1/4]]] = 0"
  by (simp add: driver_defs layer_defs engine_defs data_defs Let_def upt_rec
        step_alphas_def alpha_reg_spec_def power2_eq_square)

text \<open>
  C2. With \<^verbatim>\<open>use_dropout=False\<close>, two evaluations of the training loss on the same
  weights, features and captions that differ in the draws of the decoder's dropout node
  (line 162) give different values.
\<close>

theorem training_loss_depends_on_draws:
  "\<not> use_dropout tiny_gen
   \<and> build_model spec_layers tiny_gen keep_all [[[0]]] [[1, 1]]
       = Inr (- ln (exp (tanh 1 * 2) / (1 + exp (tanh 1 * 2))))
   \<and> build_model spec_layers tiny_gen drop_all [[[0]]] [[1, 1]] = Inr (ln 2)
   \<and> build_model spec_layers tiny_gen keep_all [[[0]]] [[1, 1]]
       \<noteq> build_model spec_layers tiny_gen drop_all [[[0]]] [[1, 1]]"
proof -
  have f: "\<not> use_dropout tiny_gen" by (simp add: data_defs)
  have k: "build_model spec_layers tiny_gen keep_all [[[0]]] [[1, 1]]
       = Inr (- ln (exp (tanh 1 * 2) / (1 + exp (tanh 1 * 2))))"
    by (simp add: driver_defs layer_defs engine_defs data_defs Let_def)
  have d: "build_model spec_layers tiny_gen drop_all [[[0]]] [[1, 1]] = Inr (ln 2)"
    by (simp add: driver_defs layer_defs engine_defs data_defs Let_def ln_div)
  have ne: "- ln (exp (tanh 1 * 2) / (1 + exp (tanh 1 * 2))) \<noteq> ln (2::real)"
  proof
    assume "- ln (exp (tanh 1 * 2) / (1 + exp (tanh 1 * 2))) = ln (2::real)"
    then have "ln (exp (tanh 1 * 2) / (1 + exp (tanh 1 * 2))) = ln (1 / (2::real))"
      by (simp add: ln_div)
    moreover have "0 < exp (tanh 1 * 2) / (1 + exp (tanh (1::real) * 2))"
      by (simp add: add_pos_pos)
    ultimately have "exp (tanh 1 * 2) / (1 + exp (tanh 1 * 2)) = 1 / (2::real)"
      by (simp add: ln_inj_iff)
    moreover have "1 + exp (tanh (1::real) * 2) \<noteq> 0"
      using exp_gt_zero[of "tanh (1::real) * 2"] by linarith
    ultimately have "exp (tanh (1::real) * 2) = 1"
      by (simp add: field_simps)
    then have "tanh (1::real) * 2 = 0" by simp
    then show False by simp
  qed
  show ?thesis using f k d ne by simp
qed

section \<open>The selector gate\<close>

text \<open>
  C9. With the selector off, \<^verbatim>\<open>context\<close> stays what the attention module returned:
  in both drivers the cell and the decoder of a step are run on the first component of
  \<^verbatim>\<open>attention_forward\<close>'s result.
\<close>

theorem selector_off_context_unchanged:
  assumes "\<not> selector g"
  shows "select_context Ls g h z = z
       \<and> model_logits Ls g rnd F P cin t st =
           (case attention_forward Ls F P (prev_h st) (W_proj_h g) (b_proj g) (W_att g) of
              (z', alpha) \<Rightarrow>
                (case model_cell_decode Ls g rnd t
                        (word_embedding_forward Ls (col t cin) (W_embed g))
                        (prev_h st) (prev_c st) z' of
                   Inl e \<Rightarrow> Inl e
                 | Inr (next_h, next_c, logits_out) \<Rightarrow> Inr (next_h, next_c, alpha, logits_out)))
       \<and> sampler_logits Ls g F P sst x =
           (case attention_forward Ls F P (prev_h sst) (W_proj_h g) (b_proj g) (W_att g) of
              (z', alpha) \<Rightarrow>
                (case sampler_cell_decode Ls g x (prev_h sst) (prev_c sst) z' of
                   Inl e \<Rightarrow> Inl e
                 | Inr (h', c', logits_out) \<Rightarrow> Inr (h', c', alpha, logits_out)))"
  using assms by (simp add: select_context_def model_logits_def sampler_logits_def)

theorem selector_off_context_unchanged_witness:
  "\<not> selector tiny_gen
   \<and> select_context spec_layers tiny_gen [[0]] [[5]] = [[5]]
   \<and> sampler_logits spec_layers tiny_gen [[[0]]] [[[0]]]
        (sampler_init spec_layers tiny_gen drop_all [[[0]]]) [[0]]
       = Inr ([[0]], [[0]], [[1]], [[0, tanh 1]])"
proof -
  have off: "\<not> selector tiny_gen" by (simp add: data_defs)
  from selector_off_context_unchanged[OF off, where Ls = spec_layers and h = "[[0]]" and z = "[[5]]"]
  have a: "select_context spec_layers tiny_gen [[0]] [[5]] = [[5]]" by blast
  from selector_off_context_unchanged[OF off, where Ls = spec_layers and F = "[[[0]]]"
      and P = "[[[0]]]" and sst = "sampler_init spec_layers tiny_gen drop_all [[[0]]]"
      and x = "[[0]]"]
  have "sampler_logits spec_layers tiny_gen [[[0]]] [[[0]]]
        (sampler_init spec_layers tiny_gen drop_all [[[0]]]) [[0]] =
           (case attention_forward spec_layers [[[0]]] [[[0]]]
                   (prev_h (sampler_init spec_layers tiny_gen drop_all [[[0]]]))
                   (W_proj_h tiny_gen) (b_proj tiny_gen) (W_att tiny_gen) of
              (z', alpha) \<Rightarrow>
                (case sampler_cell_decode spec_layers tiny_gen [[0]]
                        (prev_h (sampler_init spec_layers tiny_gen drop_all [[[0]]]))
                        (prev_c (sampler_init spec_layers tiny_gen drop_all [[[0]]])) z' of
                   Inl e \<Rightarrow> Inl e
                 | Inr (h', c', logits_out) \<Rightarrow> Inr (h', c', alpha, logits_out)))"
    by blast
  then have b: "sampler_logits spec_layers tiny_gen [[[0]]] [[[0]]]
        (sampler_init spec_layers tiny_gen drop_all [[[0]]]) [[0]]
       = Inr ([[0]], [[0]], [[1]], [[0, tanh 1]])"
    by (simp add: sampler_init_def sampler_cell_decode_def cell_step_def decode_hidden_def
          layer_defs engine_defs data_defs Let_def)
  show ?thesis by (intro conjI off a b)
qed

section \<open>The sampling driver\<close>

text \<open>
  C7, as stated: for every vocabulary and every \<^verbatim>\<open>max_len\<close> the sampler returns
  \<^verbatim>\<open>max_len\<close> words and attention maps. It fails: the generator built over the
  vocabulary \<^verbatim>\<open>{'<NULL>': 0, 'a': 1}\<close> fails at its first step, and with
  \<^verbatim>\<open>max_len = 0\<close> the empty lists cannot be stacked.
\<close>

theorem sampler_fails_without_start_or_steps:
  "init_generator tiny_weights [(''<NULL>'', 0), (''a'', 1)] [1, 1] 1 1 (Some 1) ''rnn''
       False False 0 False False = Inr no_start_gen
   \<and> build_sampler spec_layers no_start_gen drop_all [[[0]]] 3 = Inl EngineError
   \<and> build_sampler spec_layers tiny_gen drop_all [[[0]]] 0 = Inl EngineError"
  by (simp add: driver_defs layer_defs engine_defs data_defs Let_def upt_rec)

text \<open>
  C7, amended. For a generator with a start index and a recognized cell type, helpers
  that work on a batch, features of the declared shape (N, L, D) and \<^verbatim>\<open>max_len\<close> of
  at least 1, the loop runs its \<^verbatim>\<open>max_len\<close> steps without an error, collects
  \<^verbatim>\<open>max_len\<close> attention maps and \<^verbatim>\<open>max_len\<close> word vectors, and the sampler
  returns them stacked as (N, \<^verbatim>\<open>max_len\<close>, L) and (N, \<^verbatim>\<open>max_len\<close>).
\<close>

theorem build_sampler_shapes:
  assumes bw: "batchwise Ls" and ct: "cell_type g \<in> {''rnn'', ''lstm''}"
    and ff: "feed_features g F"
    and start: "start_idx g = Some s"
    and pos: "0 < max_len"
  shows "\<exists>st alphas caps.
           sampler_run Ls g rnd F max_len = Inr st
         \<and> length (alpha_list st) = max_len \<and> length (sampled_word_list st) = max_len
         \<and> build_sampler Ls g rnd F max_len = Inr (alphas, caps)
         \<and> length alphas = length F
         \<and> list_all (\<lambda>a. length a = max_len \<and> list_all (\<lambda>r. length r = dim_L g) a) alphas
         \<and> length caps = length F
         \<and> list_all (\<lambda>c. length c = max_len) caps"
proof -
  from sampler_run_inv[OF bw ct ff start] obtain st where
    st: "sampler_run Ls g rnd F max_len = Inr st" and inv: "sample_inv (length F) (dim_L g) st"
    by blast
  from sampler_run_prefix[OF st le_refl] have la: "length (alpha_list st) = max_len"
    and lw: "length (sampled_word_list st) = max_len" by auto
  have nea: "alpha_list st \<noteq> []" and new: "sampled_word_list st \<noteq> []" using la lw pos by auto
  from inv have ra: "list_all (\<lambda>a. length a = length F) (alpha_list st)"
    and rl: "\<forall>a\<in>set (alpha_list st). \<forall>r\<in>set a. length r = dim_L g"
    and rw: "list_all (\<lambda>w. length w = length F) (sampled_word_list st)"
    by (auto simp: sample_inv_def list_all_iff)
  from transpose_shape[OF nea ra] have ta: "length (transpose (alpha_list st)) = length F"
    and tr: "list_all (\<lambda>r. length r = length (alpha_list st) \<and> set r \<subseteq> \<Union> (set ` set (alpha_list st)))
               (transpose (alpha_list st))" by auto
  have tl: "list_all (\<lambda>a. length a = max_len \<and> list_all (\<lambda>r. length r = dim_L g) a)
              (transpose (alpha_list st))"
    using tr rl la by (auto simp: list_all_iff)
  from transpose_shape[OF new rw] have tw: "length (transpose (sampled_word_list st)) = length F"
    and twr: "list_all (\<lambda>c. length c = max_len) (transpose (sampled_word_list st))"
    using lw by (auto simp: list_all_iff)
  have "build_sampler Ls g rnd F max_len
          = Inr (transpose (alpha_list st), transpose (sampled_word_list st))"
    by (simp add: build_sampler_def st pack_transpose_nonempty[OF nea]
          pack_transpose_nonempty[OF new] ff)
  then show ?thesis using st la lw ta tl tw twr by blast
qed

theorem build_sampler_shapes_witness:
  "batchwise spec_layers \<and> cell_type tiny_gen \<in> {''rnn'', ''lstm''}
   \<and> feed_features tiny_gen [[[0]]] \<and> start_idx tiny_gen = Some 1 \<and> (0::nat) < 3
   \<and> (\<exists>st alphas caps.
           sampler_run spec_layers tiny_gen drop_all ([[[0]]]::grid) (3::nat) = Inr st
         \<and> length (alpha_list st) = (3::nat) \<and> length (sampled_word_list st) = (3::nat)
         \<and> build_sampler spec_layers tiny_gen drop_all ([[[0]]]::grid) (3::nat) = Inr (alphas, caps)
         \<and> length alphas = length ([[[0]]]::grid)
         \<and> list_all (\<lambda>a. length a = (3::nat) \<and> list_all (\<lambda>r. length r = dim_L tiny_gen) a) alphas
         \<and> length caps = length ([[[0]]]::grid)
         \<and> list_all (\<lambda>c. length c = (3::nat)) caps)"
proof -
  have ct: "cell_type tiny_gen \<in> {''rnn'', ''lstm''}" by (simp add: data_defs)
  have ff: "feed_features tiny_gen [[[0]]]" by (simp add: feed_features_def data_defs)
  have start: "start_idx tiny_gen = Some 1" by (simp add: data_defs)
  have pos: "(0::nat) < 3" by simp
  show ?thesis
    by (intro conjI spec_layers_batchwise ct ff start pos
          build_sampler_shapes[OF spec_layers_batchwise ct ff start pos])
qed

text \<open>
  C8. In a run of the sampler that returns, the word vectors of step 0 are the lookup
  of the start index repeated over the batch, those of a step \<open>t > 0\<close> are the lookup
  of the words collected at step \<open>t - 1\<close>, and the words collected at step \<open>t\<close> are the
  row-wise argmax of the step's \<^verbatim>\<open>logits_out\<close>: an index of the row that holds a
  largest logit.
\<close>

theorem sampler_greedy_feedback:
  assumes run: "build_sampler Ls g rnd F max_len = Inr (alphas, caps)" and t: "t < max_len"
  shows "\<exists>st st_t s x h c a lo.
           sampler_run Ls g rnd F max_len = Inr st \<and> caps = transpose (sampled_word_list st)
         \<and> sampler_run Ls g rnd F t = Inr st_t
         \<and> start_idx g = Some s
         \<and> x = word_embedding_forward Ls
                 (if t = 0 then replicate (length F) s else sampled_word_list st ! (t - 1))
                 (W_embed g)
         \<and> sampler_logits Ls g F (project_feature Ls F (W_proj_x g)) st_t x = Inr (h, c, a, lo)
         \<and> sampled_word_list st ! t = tf_argmax_1 lo
         \<and> (\<forall>n<length lo. lo ! n \<noteq> [] \<longrightarrow>
               tf_argmax_1 lo ! n < length (lo ! n)
             \<and> (\<forall>v\<in>set (lo ! n). v \<le> lo ! n ! (tf_argmax_1 lo ! n)))"
proof -
  let ?P = "project_feature Ls F (W_proj_x g)"
  from build_sampler_run[OF run] obtain st where st: "sampler_run Ls g rnd F max_len = Inr st"
    and caps: "caps = transpose (sampled_word_list st)" by blast
  have t1: "Suc t \<le> max_len" and t0: "t \<le> max_len" and one: "Suc 0 \<le> max_len" using t by auto
  from sampler_run_prefix[OF st t0] obtain st_t where
    st_t: "sampler_run Ls g rnd F t = Inr st_t"
    and wt: "sampled_word_list st_t = take t (sampled_word_list st)"
    and len: "length (sampled_word_list st) = max_len" by blast
  from sampler_run_prefix[OF st_t le_refl] have
    swt: "sampled_word st_t = (if t = 0 then None else Some (last (sampled_word_list st_t)))"
    by blast
  from sampler_run_prefix[OF st t1] obtain st_n where
    st_n: "sampler_run Ls g rnd F (Suc t) = Inr st_n"
    and wn: "sampled_word_list st_n = take (Suc t) (sampled_word_list st)" by blast
  from st_n st_t have step: "sampler_step Ls g F ?P t st_t = Inr st_n"
    by (simp add: sampler_run_Suc)
  from sampler_step_lists[OF step] obtain x h c a lo where
    x: "sampler_input Ls g (length F) t st_t = Inr x"
    and lo: "sampler_logits Ls g F ?P st_t x = Inr (h, c, a, lo)"
    and wl: "sampled_word_list st_n = sampled_word_list st_t @ [tf_argmax_1 lo]" by auto
  have word: "sampled_word_list st ! t = tf_argmax_1 lo"
  proof -
    have "sampled_word_list st ! t = take (Suc t) (sampled_word_list st) ! t" by simp
    also have "\<dots> = (take t (sampled_word_list st) @ [tf_argmax_1 lo]) ! t"
      using wn wl wt by simp
    also have "\<dots> = tf_argmax_1 lo" using len t by (simp add: nth_append)
    finally show ?thesis .
  qed
  from sampler_run_prefix[OF st one] obtain s1 where s1: "sampler_run Ls g rnd F (Suc 0) = Inr s1"
    by blast
  then obtain s where s: "start_idx g = Some s"
    by (auto simp: sampler_run_Suc sampler_run_def sampler_step_def sampler_input_def
          split: sum.splits option.splits)
  have xeq: "x = word_embedding_forward Ls
       (if t = 0 then replicate (length F) s else sampled_word_list st ! (t - 1)) (W_embed g)"
  proof (cases "t = 0")
    case True
    then show ?thesis using x s by (simp add: sampler_input_def)
  next
    case False
    have tne: "take t (sampled_word_list st) \<noteq> []" using False t len by auto
    have "last (take t (sampled_word_list st)) = sampled_word_list st ! (t - 1)"
      using False t len by (simp add: last_conv_nth[OF tne] min_def)
    then show ?thesis using x False swt wt by (simp add: sampler_input_def)
  qed
  have best: "\<forall>n<length lo. lo ! n \<noteq> [] \<longrightarrow>
               tf_argmax_1 lo ! n < length (lo ! n)
             \<and> (\<forall>v\<in>set (lo ! n). v \<le> lo ! n ! (tf_argmax_1 lo ! n))"
    using argmax_row_max by (simp add: tf_argmax_1_def)
  show ?thesis using st caps st_t s xeq lo word best by blast
qed

theorem sampler_greedy_feedback_witness:
  "build_sampler spec_layers tiny_gen drop_all [[[0]]] 3 = Inr ([[[1], [1], [1]]], [[1, 1, 1]])
   \<and> (1::nat) < 3
   \<and> (\<exists>st st_t s x h c a lo.
           sampler_run spec_layers tiny_gen drop_all ([[[0]]]::grid) (3::nat) = Inr st \<and> [[1, 1, 1]] = transpose (sampled_word_list st)
         \<and> sampler_run spec_layers tiny_gen drop_all ([[[0]]]::grid) (1::nat) = Inr st_t
         \<and> start_idx tiny_gen = Some s
         \<and> x = word_embedding_forward spec_layers
                 (if (1::nat) = 0 then replicate (length ([[[0]]]::grid)) s else sampled_word_list st ! ((1::nat) - 1))
                 (W_embed tiny_gen)
         \<and> sampler_logits spec_layers tiny_gen ([[[0]]]::grid) (project_feature spec_layers ([[[0]]]::grid) (W_proj_x tiny_gen)) st_t x = Inr (h, c, a, lo)
         \<and> sampled_word_list st ! (1::nat) = tf_argmax_1 lo
         \<and> (\<forall>n<length lo. lo ! n \<noteq> [] \<longrightarrow>
               tf_argmax_1 lo ! n < length (lo ! n)
             \<and> (\<forall>v\<in>set (lo ! n). v \<le> lo ! n ! (tf_argmax_1 lo ! n))))"
proof -
  have run: "build_sampler spec_layers tiny_gen drop_all [[[0]]] 3
      = Inr ([[[1], [1], [1]]], [[1, 1, 1]])"
    by (simp add: driver_defs layer_defs engine_defs data_defs Let_def upt_rec)
  have t: "(1::nat) < 3" by simp
  show ?thesis
    by (intro conjI run t sampler_greedy_feedback[OF run t])
qed

end
